theory Spec2Isabelle
  imports Main "HOL-Library.Sublist" "HOL-Library.Word"
begin

unbundle bit_operations_syntax

section \<open>Go values and outcomes\<close>

text \<open>
  A call either returns or panics. \<open>Done x\<close> is a normal return with value \<open>x\<close>;
  \<open>Panic m\<close> is a run-time panic with message \<open>m\<close>. A Go \<open>error\<close> result is a
  \<open>string option\<close>: \<open>None\<close> is \<open>nil\<close>, \<open>Some m\<close> an error whose text is \<open>m\<close>.
\<close>

datatype 'a exec = Done 'a | Panic string

text \<open>
  A decoded response body (\<open>interface{}\<close>): scalars, slices, maps and pointers. A map is
  the list of its entries in the order \<open>reflect.Value.MapKeys\<close> yields them (Go leaves
  that order open). \<open>GFloat64\<close> carries the IEEE-754 bits; nothing here computes on them.
  \<open>GPtr v\<close> is a pointer to \<open>v\<close>; decoders do not produce nil pointers and they have no
  representation here.
\<close>

datatype gval =
    GNil
  | GBool bool
  | GInt int
  | GFloat64 "64 word"
  | GString string
  | GSlice "gval list"
  | GMap "(gval \<times> gval) list"
  | GPtr gval

text \<open>\<open>strings.Contains\<close> and \<open>strings.HasPrefix\<close> (the latter is \<^const>\<open>prefix\<close>).\<close>

fun contains :: "string \<Rightarrow> string \<Rightarrow> bool" where
  "contains [] sub = (sub = [])"
| "contains (c # cs) sub = (prefix sub (c # cs) \<or> contains cs sub)"

section \<open>links.go: links and link parsers\<close>

record Link =
  Rel :: string
  URI :: string

text \<open>
  \<open>type Links map[string][]*Link\<close>. Every parser below stores a freshly allocated
  \<open>Link\<close>, so no two entries share a pointer and the lists hold the links by value.
\<close>

type_synonym Links = "string \<rightharpoonup> Link list"

text \<open>
  The fields of \<open>Response\<close> the package reads. \<open>Links = None\<close> is the nil map.
\<close>

record Response =
  Proto :: string
  Status :: int
  Headers :: "string \<rightharpoonup> string"
  Links :: "Links option"
  Body :: gval

text \<open>\<open>LinkParser.ParseLinks(resp *Response) error\<close>: the response as the call leaves it, and the error.\<close>

type_synonym LinkParser = "Response \<Rightarrow> (Response \<times> string option) exec"

text \<open>\<open>var linkParsers = []LinkParser{}\<close> and \<open>AddLinkParser\<close>.\<close>

definition linkParsers_init :: "LinkParser list" where
  "linkParsers_init = []"

definition AddLinkParser :: "LinkParser list \<Rightarrow> LinkParser \<Rightarrow> LinkParser list" where
  "AddLinkParser linkParsers parser = linkParsers @ [parser]"

text \<open>Reading \<open>m[rel]\<close> of a Go map: a missing key reads as the nil slice.\<close>

definition links_get :: "Links \<Rightarrow> string \<Rightarrow> Link list" where
  "links_get m rel = (case m rel of None \<Rightarrow> [] | Some ls \<Rightarrow> ls)"

text \<open>\<open>m[rel] = append(m[rel], &Link{...})\<close> on a map that is not nil.\<close>

definition links_append :: "Links \<Rightarrow> string \<Rightarrow> Link \<Rightarrow> Links" where
  "links_append m rel l = m(rel \<mapsto> links_get m rel @ [l])"

text \<open>
  The store as \<open>LinkHeaderParser\<close> and \<open>walk\<close> write it: first
  \<open>if resp.Links == nil { resp.Links = map[string][]*Link{} }\<close>, then the append.
\<close>

definition add_link :: "Response \<Rightarrow> string \<Rightarrow> Link \<Rightarrow> Response" where
  "add_link resp rel l =
     resp\<lparr>Links := Some (links_append (case Links resp of None \<Rightarrow> Map.empty | Some m \<Rightarrow> m) rel l)\<rparr>"

text \<open>
  The store as \<open>HALParser\<close> and \<open>SirenParser\<close> write it: the append alone. Go panics on
  an assignment to an entry of a nil map.
\<close>

definition store_link :: "Response \<Rightarrow> string \<Rightarrow> Link \<Rightarrow> Response exec" where
  "store_link resp rel l =
     (case Links resp of
        None \<Rightarrow> Panic ''assignment to entry in nil map''
      | Some m \<Rightarrow> Done (resp\<lparr>Links := Some (links_append m rel l)\<rparr>))"

text \<open>What \<open>resp.Links[rel]\<close> reads, on a nil map too.\<close>

definition links_at :: "Response \<Rightarrow> string \<Rightarrow> Link list" where
  "links_at resp rel = (case Links resp of None \<Rightarrow> [] | Some m \<Rightarrow> links_get m rel)"

subsection \<open>LinkHeaderParser\<close>

text \<open>
  \<open>link.Parse\<close> (package http-link-go) is a parameter: it returns an error or the parsed
  links, of which the parser reads \<open>Rel\<close> and \<open>URI\<close>.
\<close>

fun add_parsed :: "Response \<Rightarrow> (string \<times> string) list \<Rightarrow> Response" where
  "add_parsed resp [] = resp"
| "add_parsed resp ((rel, uri) # parsed) =
     add_parsed (add_link resp rel \<lparr>Rel = rel, URI = uri\<rparr>) parsed"

definition header_get :: "Response \<Rightarrow> string \<Rightarrow> string" where
  "header_get resp k = (case Headers resp k of None \<Rightarrow> [] | Some v \<Rightarrow> v)"

definition LinkHeaderParser_ParseLinks ::
  "(string \<Rightarrow> string + (string \<times> string) list) \<Rightarrow> LinkParser" where
  "LinkHeaderParser_ParseLinks link_Parse resp =
     (if header_get resp ''Link'' \<noteq> ''''
      then (case link_Parse (header_get resp ''Link'') of
              Inl err \<Rightarrow> Done (resp, Some err)
            | Inr links \<Rightarrow> Done (add_parsed resp links, None))
      else Done (resp, None))"

subsection \<open>HALParser\<close>

record halLink =
  Href :: string

text \<open>\<open>halBody.Links\<close> is a Go map: its entries in the order \<open>range\<close> yields them.\<close>

record halBody =
  hal_Links :: "(string \<times> halLink) list"

fun hal_links_loop :: "Response \<Rightarrow> (string \<times> halLink) list \<Rightarrow> Response exec" where
  "hal_links_loop resp [] = Done resp"
| "hal_links_loop resp ((rel, link) # rest) =
     (if rel = ''curies'' then hal_links_loop resp rest
      else (case store_link resp rel \<lparr>Rel = rel, URI = Href link\<rparr> of
              Panic m \<Rightarrow> Panic m
            | Done resp' \<Rightarrow> hal_links_loop resp' rest))"

text \<open>
  \<open>mapstructure.Decode(resp.Body, &hal)\<close> is a parameter: an error, or the decoded
  \<open>halBody\<close>.
\<close>

definition HALParser_ParseLinks :: "(gval \<Rightarrow> string + halBody) \<Rightarrow> LinkParser" where
  "HALParser_ParseLinks Decode resp =
     (case Decode (Body resp) of
        Inl err \<Rightarrow> Done (resp, None)
      | Inr hal \<Rightarrow>
          (case hal_links_loop resp (hal_Links hal) of
             Panic m \<Rightarrow> Panic m
           | Done resp' \<Rightarrow> Done (resp', None)))"

subsection \<open>TerrificallySimpleJSONParser\<close>

text \<open>
  \<open>fmt.Sprintf("%v", _)\<close> is the parameter \<open>sprint\<close>. \<open>walk\<close> always returns the nil
  error, and its callers in the slice and map branches drop it; the model returns the
  response as the walk leaves it.
\<close>

fun walk :: "(gval \<Rightarrow> string) \<Rightarrow> Response \<Rightarrow> string \<Rightarrow> gval \<Rightarrow> Response"
  and walk_items :: "(gval \<Rightarrow> string) \<Rightarrow> Response \<Rightarrow> string \<Rightarrow> gval list \<Rightarrow> Response"
  and walk_entries :: "(gval \<Rightarrow> string) \<Rightarrow> Response \<Rightarrow> string \<Rightarrow> (gval \<times> gval) list \<Rightarrow> Response"
where
  "walk sprint resp key (GSlice xs) = walk_items sprint resp key xs"
| "walk sprint resp key (GMap es) = walk_entries sprint resp key es"
| "walk sprint resp key (GPtr v) = walk sprint resp key v"
| "walk sprint resp key GNil = resp"
| "walk sprint resp key (GBool b) = resp"
| "walk sprint resp key (GInt i) = resp"
| "walk sprint resp key (GFloat64 f) = resp"
| "walk sprint resp key (GString s) = resp"
| "walk_items sprint resp key [] = resp"
| "walk_items sprint resp key (x # xs) =
     walk_items sprint (walk sprint resp (key @ ''-item'') x) key xs"
| "walk_entries sprint resp key [] = resp"
| "walk_entries sprint resp key ((k, v) # es) =
     (case k of
        GString s \<Rightarrow>
          (if s = ''self''
           then walk_entries sprint (add_link resp key \<lparr>Rel = key, URI = sprint v\<rparr>) key es
           else walk_entries sprint (walk sprint resp s v) key es)
      | _ \<Rightarrow> walk_entries sprint (walk sprint resp (sprint k) v) key es)"

definition TerrificallySimpleJSONParser_ParseLinks :: "(gval \<Rightarrow> string) \<Rightarrow> LinkParser" where
  "TerrificallySimpleJSONParser_ParseLinks sprint resp =
     Done (walk sprint resp ''self'' (Body resp), None)"

subsection \<open>SirenParser\<close>

record sirenLink =
  siren_Rel :: "string list"
  siren_Href :: string

record sirenBody =
  siren_Links :: "sirenLink list"

fun siren_rel_loop :: "Response \<Rightarrow> string \<Rightarrow> string list \<Rightarrow> Response exec" where
  "siren_rel_loop resp href [] = Done resp"
| "siren_rel_loop resp href (rel # rels) =
     (case store_link resp rel \<lparr>Rel = rel, URI = href\<rparr> of
        Panic m \<Rightarrow> Panic m
      | Done resp' \<Rightarrow> siren_rel_loop resp' href rels)"

fun siren_links_loop :: "Response \<Rightarrow> sirenLink list \<Rightarrow> Response exec" where
  "siren_links_loop resp [] = Done resp"
| "siren_links_loop resp (link # rest) =
     (if siren_Href link = '''' then siren_links_loop resp rest
      else (case siren_rel_loop resp (siren_Href link) (siren_Rel link) of
              Panic m \<Rightarrow> Panic m
            | Done resp' \<Rightarrow> siren_links_loop resp' rest))"

definition SirenParser_ParseLinks :: "(gval \<Rightarrow> string + sirenBody) \<Rightarrow> LinkParser" where
  "SirenParser_ParseLinks Decode resp =
     (case Decode (Body resp) of
        Inl err \<Rightarrow> Done (resp, None)
      | Inr siren \<Rightarrow>
          (case siren_links_loop resp (siren_Links siren) of
             Panic m \<Rightarrow> Panic m
           | Done resp' \<Rightarrow> Done (resp', None)))"

subsection \<open>ParseLinks\<close>

text \<open>
  Package \<open>net/url\<close> is a parameter: the operations on \<open>*url.URL\<close> that this repository
  calls, over a type \<open>'u\<close> of parsed URLs.
\<close>

record 'u net_url =
  url_Parse :: "string \<Rightarrow> string + 'u"
  url_ResolveReference :: "'u \<Rightarrow> 'u \<Rightarrow> 'u"
  url_String :: "'u \<Rightarrow> string"
  url_Scheme :: "'u \<Rightarrow> string"
  url_Host :: "'u \<Rightarrow> string"
  url_Path :: "'u \<Rightarrow> string"

text \<open>The first loop: each parser in turn, returning at the first error.\<close>

fun run_parsers :: "LinkParser list \<Rightarrow> LinkParser" where
  "run_parsers [] resp = Done (resp, None)"
| "run_parsers (parser # rest) resp =
     (case parser resp of
        Panic m \<Rightarrow> Panic m
      | Done (resp', Some err) \<Rightarrow> Done (resp', Some err)
      | Done (resp', None) \<Rightarrow> run_parsers rest resp')"

text \<open>
  The inner loop over one relation's links: a link is rewritten when its URI parses;
  the first URI that does not parse ends the loop with that error, the links from there
  on left as they were.
\<close>

fun resolve_links :: "'u net_url \<Rightarrow> 'u \<Rightarrow> Link list \<Rightarrow> Link list \<times> string option" where
  "resolve_links U base [] = ([], None)"
| "resolve_links U base (l # ls) =
     (case url_Parse U (URI l) of
        Inl err \<Rightarrow> (l # ls, Some err)
      | Inr p \<Rightarrow>
          (case resolve_links U base ls of
             (ls', e) \<Rightarrow> (l\<lparr>URI := url_String U (url_ResolveReference U base p)\<rparr> # ls', e)))"

text \<open>
  The outer loop, \<open>for _, links := range resp.Links\<close>. \<open>ks\<close> is the order in which
  \<open>range\<close> yields the keys of the map on this run.
\<close>

fun resolve_all :: "'u net_url \<Rightarrow> 'u \<Rightarrow> string list \<Rightarrow> Links \<Rightarrow> Links \<times> string option" where
  "resolve_all U base [] m = (m, None)"
| "resolve_all U base (k # ks) m =
     (case m k of
        None \<Rightarrow> resolve_all U base ks m
      | Some ls \<Rightarrow>
          (case resolve_links U base ls of
             (ls', Some err) \<Rightarrow> (m(k \<mapsto> ls'), Some err)
           | (ls', None) \<Rightarrow> resolve_all U base ks (m(k \<mapsto> ls'))))"

definition ParseLinks ::
  "'u net_url \<Rightarrow> LinkParser list \<Rightarrow> string list \<Rightarrow> 'u \<Rightarrow> LinkParser" where
  "ParseLinks U linkParsers ks base resp =
     (case run_parsers linkParsers resp of
        Panic m \<Rightarrow> Panic m
      | Done (resp', Some err) \<Rightarrow> Done (resp', Some err)
      | Done (resp', None) \<Rightarrow>
          (case Links resp' of
             None \<Rightarrow> Done (resp', None)
           | Some m \<Rightarrow>
               (case resolve_all U base ks m of
                  (m', e) \<Rightarrow> Done (resp'\<lparr>Links := Some m'\<rparr>, e))))"

subsection \<open>A listing of the self links of a body\<close>

text \<open>
  The links the self-link walk is to record, in discovery order, written as a list and
  without a response: under the current key \<open>key\<close>, an entry \<open>"self": v\<close> of a map gives
  the link \<open>(key, text of v)\<close>; any other entry \<open>k: v\<close> is listed under the key \<open>k\<close>
  alone (the text of \<open>k\<close> when \<open>k\<close> is not a string), the keys further out playing no
  part; the elements of a slice are listed under \<open>key\<close> followed by \<open>-item\<close>; a pointer is
  listed as what it points to.
\<close>

fun self_links :: "(gval \<Rightarrow> string) \<Rightarrow> string \<Rightarrow> gval \<Rightarrow> Link list"
  and self_links_items :: "(gval \<Rightarrow> string) \<Rightarrow> string \<Rightarrow> gval list \<Rightarrow> Link list"
  and self_links_entries :: "(gval \<Rightarrow> string) \<Rightarrow> string \<Rightarrow> (gval \<times> gval) list \<Rightarrow> Link list"
where
  "self_links sprint key (GSlice xs) = self_links_items sprint key xs"
| "self_links sprint key (GMap es) = self_links_entries sprint key es"
| "self_links sprint key (GPtr v) = self_links sprint key v"
| "self_links sprint key GNil = []"
| "self_links sprint key (GBool b) = []"
| "self_links sprint key (GInt i) = []"
| "self_links sprint key (GFloat64 f) = []"
| "self_links sprint key (GString s) = []"
| "self_links_items sprint key [] = []"
| "self_links_items sprint key (x # xs) =
     self_links sprint (key @ ''-item'') x @ self_links_items sprint key xs"
| "self_links_entries sprint key [] = []"
| "self_links_entries sprint key ((k, v) # es) =
     (if k = GString ''self'' then [\<lparr>Rel = key, URI = sprint v\<rparr>]
      else self_links sprint (case k of GString s \<Rightarrow> s | _ \<Rightarrow> sprint k) v)
     @ self_links_entries sprint key es"

text \<open>Recording a list of links, each under its own relation name, oldest first.\<close>

fun record_links :: "Response \<Rightarrow> Link list \<Rightarrow> Response" where
  "record_links resp [] = resp"
| "record_links resp (l # ls) = record_links (add_link resp (Rel l) l) ls"

subsection \<open>What the resolution loop is to do to a link\<close>

text \<open>
  \<open>parses U l\<close>: \<open>url.Parse\<close> accepts the URI of \<open>l\<close>. \<open>absolute U base l\<close>: the link \<open>l\<close>
  with its URI replaced by \<open>base.ResolveReference(p).String()\<close>, \<open>p\<close> the parsed URI.
\<close>

definition parses :: "'u net_url \<Rightarrow> Link \<Rightarrow> bool" where
  "parses U l = (case url_Parse U (URI l) of Inl err \<Rightarrow> False | Inr p \<Rightarrow> True)"

definition absolute :: "'u net_url \<Rightarrow> 'u \<Rightarrow> Link \<Rightarrow> Link" where
  "absolute U base l =
     (case url_Parse U (URI l) of
        Inl err \<Rightarrow> l
      | Inr p \<Rightarrow> l\<lparr>URI := url_String U (url_ResolveReference U base p)\<rparr>)"

section \<open>An instance of net/url for worked examples\<close>

text \<open>
  The theorems below hold for every \<open>net_url\<close>. Where a statement is evaluated at a
  concrete input, \<open>net/url\<close> is instantiated with the functions of this section. They
  follow \<open>url.Parse\<close>, \<open>(*URL).ResolveReference\<close> and \<open>(*URL).String\<close> on the strings
  \<open>scheme://host/path\<close>, \<open>scheme://host\<close>, \<open>/path\<close> and \<open>path\<close> in which the scheme is
  made of lower-case letters, the host of letters, digits, \<open>.\<close> and \<open>-\<close>, with or
  without a colon and a port after them, and the path of letters, digits, \<open>-\<close>, \<open>.\<close>,
  \<open>_\<close>, \<open>~\<close> and \<open>/\<close>; a string that starts with a colon, and a port that is not made
  of digits, are rejected as \<open>url.Parse\<close> rejects them. On other strings (a query, a
  fragment, user information, an IPv6 literal, a percent escape, a character that
  \<open>String\<close> would escape) they are not meant to agree with Go. Error texts are the
  reason alone, without the \<open>parse "...":\<close> prefix Go adds.
\<close>

record url =
  u_Scheme :: string
  u_Opaque :: string
  u_Host :: string
  u_Path :: string

definition is_letter :: "char \<Rightarrow> bool" where
  "is_letter c = (c \<in> set ''abcdefghijklmnopqrstuvwxyzABCDEFGHIJKLMNOPQRSTUVWXYZ'')"

definition is_scheme_char :: "char \<Rightarrow> bool" where
  "is_scheme_char c = (c \<in> set ''0123456789+-.'')"

text \<open>\<open>getScheme\<close>: \<open>seen\<close> is the part of the string already read.\<close>

fun getScheme_loop :: "string \<Rightarrow> string \<Rightarrow> string \<Rightarrow> string + (string \<times> string)" where
  "getScheme_loop rawURL seen [] = Inr ('''', rawURL)"
| "getScheme_loop rawURL seen (c # cs) =
     (if is_letter c then getScheme_loop rawURL (seen @ [c]) cs
      else if is_scheme_char c
        then (if seen = [] then Inr ('''', rawURL) else getScheme_loop rawURL (seen @ [c]) cs)
      else if c = CHR '':''
        then (if seen = [] then Inl ''missing protocol scheme'' else Inr (seen, cs))
      else Inr ('''', rawURL))"

definition getScheme :: "string \<Rightarrow> string + (string \<times> string)" where
  "getScheme rawURL = getScheme_loop rawURL [] rawURL"

text \<open>
  \<open>validOptionalPort\<close>, and \<open>parseHost\<close> on a host that is not an IPv6 literal:
  \<open>colonPort\<close> is the host from its last colon on, and \<open>%q\<close> puts it between double
  quotes.
\<close>

definition validOptionalPort :: "string \<Rightarrow> bool" where
  "validOptionalPort port =
     (port = '''' \<or> (hd port = CHR '':'' \<and> list_all (\<lambda>b. b \<in> set ''0123456789'') (tl port)))"

definition parseHost :: "string \<Rightarrow> string + string" where
  "parseHost host =
     (let colonPort = CHR '':'' # rev (takeWhile (\<lambda>c. c \<noteq> CHR '':'') (rev host))
      in if CHR '':'' \<in> set host \<and> \<not> validOptionalPort colonPort
         then Inl (''invalid port '' @ [CHR 0x22] @ colonPort @ [CHR 0x22] @ '' after host'')
         else Inr host)"

definition simple_Parse :: "string \<Rightarrow> string + url" where
  "simple_Parse rawURL =
     (case getScheme rawURL of
        Inl err \<Rightarrow> Inl err
      | Inr (scheme, rest) \<Rightarrow>
          (if \<not> prefix ''/'' rest \<and> scheme \<noteq> ''''
             then Inr \<lparr>u_Scheme = scheme, u_Opaque = rest, u_Host = '''', u_Path = ''''\<rparr>
           else if \<not> prefix ''/'' rest \<and> CHR '':'' \<in> set (takeWhile (\<lambda>c. c \<noteq> CHR ''/'') rest)
             then Inl ''first path segment in URL cannot contain colon''
           else if (scheme \<noteq> '''' \<or> \<not> prefix ''///'' rest) \<and> prefix ''//'' rest
             then (case parseHost (takeWhile (\<lambda>c. c \<noteq> CHR ''/'') (drop 2 rest)) of
                     Inl err \<Rightarrow> Inl err
                   | Inr host \<Rightarrow>
                       Inr \<lparr>u_Scheme = scheme, u_Opaque = '''', u_Host = host,
                            u_Path = dropWhile (\<lambda>c. c \<noteq> CHR ''/'') (drop 2 rest)\<rparr>)
           else Inr \<lparr>u_Scheme = scheme, u_Opaque = '''', u_Host = '''', u_Path = rest\<rparr>))"

text \<open>\<open>strings.Split(s, "/")\<close> and \<open>strings.Join(xs, "/")\<close>.\<close>

fun split_slash :: "string \<Rightarrow> string list" where
  "split_slash [] = [[]]"
| "split_slash (c # cs) =
     (if c = CHR ''/'' then [] # split_slash cs
      else (case split_slash cs of [] \<Rightarrow> [[c]] | x # xs \<Rightarrow> (c # x) # xs))"

fun join_slash :: "string list \<Rightarrow> string" where
  "join_slash [] = []"
| "join_slash [x] = x"
| "join_slash (x # y # ys) = x @ ''/'' @ join_slash (y # ys)"

fun remove_dots :: "string list \<Rightarrow> string list \<Rightarrow> string list" where
  "remove_dots dst [] = dst"
| "remove_dots dst (elem # src) =
     (if elem = ''.'' then remove_dots dst src
      else if elem = ''..'' then remove_dots (butlast dst) src
      else remove_dots (dst @ [elem]) src)"

definition resolvePath :: "string \<Rightarrow> string \<Rightarrow> string" where
  "resolvePath base ref =
     (let full = (if ref = '''' then base
                  else if hd ref \<noteq> CHR ''/''
                    then rev (dropWhile (\<lambda>c. c \<noteq> CHR ''/'') (rev base)) @ ref
                  else ref)
      in if full = '''' then ''''
         else (let src = split_slash full;
                   dst = remove_dots [] src;
                   dst' = (if last src = ''.'' \<or> last src = ''..'' then dst @ [''''] else dst);
                   joined = join_slash dst'
               in ''/'' @ (if prefix ''/'' joined then tl joined else joined)))"

definition simple_ResolveReference :: "url \<Rightarrow> url \<Rightarrow> url" where
  "simple_ResolveReference u ref =
     (let scheme = (if u_Scheme ref = '''' then u_Scheme u else u_Scheme ref)
      in if u_Scheme ref \<noteq> '''' \<or> u_Host ref \<noteq> ''''
           then ref\<lparr>u_Scheme := scheme, u_Path := resolvePath (u_Path ref) ''''\<rparr>
         else if u_Opaque ref \<noteq> ''''
           then ref\<lparr>u_Scheme := scheme, u_Host := '''', u_Path := ''''\<rparr>
         else ref\<lparr>u_Scheme := scheme, u_Host := u_Host u,
                  u_Path := resolvePath (u_Path u) (u_Path ref)\<rparr>)"

definition simple_String :: "url \<Rightarrow> string" where
  "simple_String u =
     (let buf = (if u_Scheme u \<noteq> '''' then u_Scheme u @ '':'' else '''')
      in if u_Opaque u \<noteq> '''' then buf @ u_Opaque u
         else (let buf1 = buf @ (if (u_Scheme u \<noteq> '''' \<or> u_Host u \<noteq> '''')
                                       \<and> (u_Host u \<noteq> '''' \<or> u_Path u \<noteq> '''')
                                 then ''//'' @ u_Host u else '''');
                   buf2 = buf1 @ (if u_Path u \<noteq> '''' \<and> hd (u_Path u) \<noteq> CHR ''/'' \<and> u_Host u \<noteq> ''''
                                  then ''/'' else '''');
                   buf3 = buf2 @ (if buf2 = '''' \<and> CHR '':'' \<in> set (takeWhile (\<lambda>c. c \<noteq> CHR ''/'') (u_Path u))
                                  then ''./'' else '''')
               in buf3 @ u_Path u))"

definition simple_url :: "url net_url" where
  "simple_url =
     \<lparr>url_Parse = simple_Parse, url_ResolveReference = simple_ResolveReference,
      url_String = simple_String, url_Scheme = u_Scheme, url_Host = u_Host,
      url_Path = u_Path\<rparr>"

text \<open>\<open>fmt.Sprintf("%v", _)\<close> on the strings of a body; the examples print no other value.\<close>

fun sprint_string :: "gval \<Rightarrow> string" where
  "sprint_string (GString s) = s"
| "sprint_string _ = ''''"

section \<open>Parameters and their values\<close>

text \<open>
  A value held in an \<open>interface{}\<close> of a parameter: a declared default or example, or
  the value a flag is bound to. \<open>PNil\<close> is the nil interface. A slice carries the name of
  its element type (\<open>[]string\<close> is \<open>PSlice ''string''\<close>, \<open>[]interface{}\<close> is
  \<open>PSlice ''interface {}''\<close>); \<open>PNilSlice\<close> is the nil slice of that type. \<open>PFloat64\<close>
  carries the IEEE-754 bits. Integers are only stored, compared and printed.
\<close>

datatype pval =
    PNil
  | PBool bool
  | PInt int
  | PFloat64 "64 word"
  | PString string
  | PSlice string "pval list"
  | PNilSlice string

datatype Style = StyleSimple | StyleForm

text \<open>\<open>cli.Param\<close>, as the callers under \<open>src/\<close> build and read it.\<close>

record Param =
  Type :: string
  Name :: string
  DisplayName :: string
  Description :: string
  Style :: Style
  Explode :: bool
  Default :: pval
  Example :: pval

section \<open>openapi.go: compiling a description document\<close>

text \<open>
  An extension value is a \<open>json.RawMessage\<close>; it is modelled by the JSON value it holds
  (a number by its literal).
\<close>

datatype json =
    JNull
  | JBool bool
  | JNumber string
  | JString string
  | JArray "json list"
  | JObject "(string \<times> json) list"

type_synonym ExtensionProps = "string \<rightharpoonup> json"

definition ExtName :: string where "ExtName = ''x-cli-name''"
definition ExtAliases :: string where "ExtAliases = ''x-cli-aliases''"
definition ExtDescription :: string where "ExtDescription = ''x-cli-description''"
definition ExtIgnore :: string where "ExtIgnore = ''x-cli-ignore''"
definition ExtHidden :: string where "ExtHidden = ''x-cli-hidden''"

text \<open>
  \<open>json.Unmarshal(raw, &b)\<close> for a \<open>bool\<close> variable holding \<open>old\<close>, its error dropped
  as the callers drop it: a JSON boolean is stored, \<open>null\<close> and every other value leave
  the variable as it was.
\<close>

definition unmarshal_bool :: "json \<Rightarrow> bool \<Rightarrow> bool" where
  "unmarshal_bool raw old = (case raw of JBool b \<Rightarrow> b | _ \<Rightarrow> old)"

text \<open>
  \<open>extStr\<close>: the string of an extension, and the empty string when the key is missing,
  the value is \<open>null\<close>, or it is not a string (the warning is not modelled).
\<close>

definition extStr :: "ExtensionProps \<Rightarrow> string \<Rightarrow> string" where
  "extStr v key =
     (case v key of
        None \<Rightarrow> ''''
      | Some raw \<Rightarrow> (case raw of JString s \<Rightarrow> s | _ \<Rightarrow> ''''))"

text \<open>
  \<open>openapi3.Schema\<close>: the fields read here. \<open>schema_Items\<close> is a \<open>*SchemaRef\<close>:
  \<open>None\<close> is the nil pointer, \<open>Some None\<close> a reference whose \<open>Value\<close> is nil.
\<close>

datatype Schema =
  Schema (schema_Type: string) (schema_Items: "Schema option option")
         (schema_Default: pval) (schema_Example: pval)

text \<open>\<open>openapi3.Parameter\<close>; a \<open>*ParameterRef\<close> is its \<open>Value\<close>, \<open>None\<close> when nil.\<close>

record Parameter =
  param_ExtensionProps :: ExtensionProps
  param_Name :: string
  param_In :: string
  param_Description :: string
  param_Style :: string
  param_Explode :: "bool option"
  param_Schema :: "Schema option option"
  param_Example :: pval

type_synonym ParameterRef = "Parameter option"

text \<open>
  \<open>openapi3.MediaType\<close>. \<open>mt_Examples\<close> is a Go map of \<open>*ExampleRef\<close>: its entries in the
  order \<open>range\<close> yields them, each the \<open>Value.Value\<close> of the example, \<open>None\<close> when
  \<open>Value\<close> is nil.
\<close>

record MediaType =
  mt_Schema :: "Schema option option"
  mt_Example :: pval
  mt_Examples :: "(string \<times> pval option) list"

record RequestBody =
  Content :: "string \<rightharpoonup> MediaType"

text \<open>
  \<open>openapi3.Operation\<close>. \<open>op_RequestBody\<close> is a \<open>*RequestBodyRef\<close>: \<open>None\<close> is nil,
  \<open>Some None\<close> a reference whose \<open>Value\<close> is nil. \<open>Responses\<close> only feeds the long
  description and is left out.
\<close>

record Operation3 =
  op_ExtensionProps :: ExtensionProps
  op_OperationID :: string
  op_Summary :: string
  op_Description :: string
  op_Parameters :: "ParameterRef list"
  op_RequestBody :: "RequestBody option option"

text \<open>
  \<open>openapi3.PathItem\<close>. \<open>path_Operations\<close> is the map \<open>path.Operations()\<close> returns, from
  method to operation: its entries in the order \<open>range\<close> yields them.
\<close>

record PathItem =
  path_ExtensionProps :: ExtensionProps
  path_Parameters :: "ParameterRef list"
  path_Operations :: "(string \<times> Operation3) list"

record Server =
  URL :: string

record Info =
  Title :: string
  info_Description :: string

text \<open>
  \<open>openapi3.Swagger\<close>. \<open>Paths\<close> is a Go map from path template to path item: its
  entries in the order \<open>range\<close> yields them.
\<close>

record Swagger =
  Servers :: "Server list"
  Paths :: "(string \<times> PathItem) list"
  swagger_Info :: "Info option"

text \<open>
  \<open>cli.Operation\<close>. \<open>Aliases\<close>, \<open>Long\<close> and \<open>Examples\<close> are documentation built with
  \<open>renderSchema\<close>, \<open>json.Marshal\<close> and \<open>shorthand.Get\<close>; no statement below reads them
  and they are left out.
\<close>

record Operation =
  o_Name :: string
  o_Short :: string
  o_Method :: string
  o_URITemplate :: string
  o_PathParams :: "Param list"
  o_QueryParams :: "Param list"
  o_HeaderParams :: "Param list"
  o_BodyMediaType :: string
  o_Hidden :: bool

text \<open>\<open>cli.API\<close>, without \<open>CacheUntil\<close> (a wall-clock time).\<close>

record API =
  api_Short :: string
  api_Long :: string
  Operations :: "Operation list"

subsection \<open>getRequestInfo\<close>

text \<open>The schema and the examples the first loop stores for one media type.\<close>

definition item_info :: "MediaType \<Rightarrow> Schema option \<times> pval list" where
  "item_info item =
     ((case mt_Schema item of Some (Some s) \<Rightarrow> Some s | _ \<Rightarrow> None),
      (if mt_Example item \<noteq> PNil then [mt_Example item]
       else (case find (\<lambda>(name, ex). ex \<noteq> None) (mt_Examples item) of
               Some (name, Some v) \<Rightarrow> [v]
             | _ \<Rightarrow> [])))"

text \<open>
  \<open>for mt, item := range mts { if P(mt) { return mt, ... } }\<close>: \<open>ks\<close> is the order in
  which \<open>range\<close> yields the keys of \<open>mts\<close> on this run; a string that is not a key is
  passed over. \<open>None\<close> when the loop ends without returning.
\<close>

fun range_first :: "string list \<Rightarrow> (string \<rightharpoonup> 'a) \<Rightarrow> (string \<Rightarrow> bool) \<Rightarrow> (string \<times> 'a) option" where
  "range_first [] mts P = None"
| "range_first (mt # ks) mts P =
     (case mts mt of
        None \<Rightarrow> range_first ks mts P
      | Some item \<Rightarrow> (if P mt then Some (mt, item) else range_first ks mts P))"

text \<open>The orders of the three loops over \<open>mts\<close> in one call.\<close>

type_synonym ranges = "string list \<times> string list \<times> string list"

definition request_mts :: "Operation3 \<Rightarrow> (string \<rightharpoonup> Schema option \<times> pval list)" where
  "request_mts op =
     (case op_RequestBody op of
        Some (Some body) \<Rightarrow> (\<lambda>mt. map_option item_info (Content body mt))
      | _ \<Rightarrow> Map.empty)"

definition getRequestInfo :: "ranges \<Rightarrow> Operation3 \<Rightarrow> string \<times> Schema option \<times> pval list" where
  "getRequestInfo rs op =
     (case rs of (ks1, ks2, ks3) \<Rightarrow>
        (case range_first ks1 (request_mts op) (\<lambda>mt. contains mt ''json'') of
           Some (mt, item) \<Rightarrow> (mt, item)
         | None \<Rightarrow>
             (case range_first ks2 (request_mts op) (\<lambda>mt. contains mt ''yaml'') of
                Some (mt, item) \<Rightarrow> (mt, item)
              | None \<Rightarrow>
                  (case range_first ks3 (request_mts op) (\<lambda>mt. True) of
                     Some (mt, item) \<Rightarrow> (mt, item)
                   | None \<Rightarrow> ('''', None, [])))))"

subsection \<open>openapiOperation\<close>

text \<open>
  The body of the loop over \<open>combinedParams\<close> for a parameter whose \<open>Value\<close> is not nil.
  An array schema whose \<open>Items\<close> or \<open>Items.Value\<close> is nil is a nil pointer dereference.
\<close>

definition compile_param :: "Parameter \<Rightarrow> Param exec" where
  "compile_param p =
     (case (case param_Schema p of
              Some (Some sch) \<Rightarrow>
                (if schema_Type sch = ''array''
                 then (case schema_Items sch of
                         Some (Some items) \<Rightarrow>
                           Done (''array['' @ schema_Type items @ '']'',
                                 schema_Default sch, schema_Example sch)
                       | _ \<Rightarrow> Panic ''nil pointer dereference'')
                 else Done (schema_Type sch, schema_Default sch, schema_Example sch))
            | _ \<Rightarrow> Done (''string'', PNil, PNil)) of
        Panic m \<Rightarrow> Panic m
      | Done (typ, def, example) \<Rightarrow>
          Done \<lparr>Type = typ,
                Name = param_Name p,
                DisplayName = extStr (param_ExtensionProps p) ExtName,
                Description = param_Description p,
                Style = (if param_Style p = ''form'' then StyleForm else StyleSimple),
                Explode = (case param_Explode p of None \<Rightarrow> False | Some b \<Rightarrow> b),
                Default = def,
                Example = (if param_Example p \<noteq> PNil then param_Example p else example)\<rparr>)"

text \<open>
  The loop over \<open>combinedParams\<close>; the accumulator is \<open>(pathParams, queryParams,
  headerParams)\<close>.
\<close>

fun params_loop ::
  "ParameterRef list \<Rightarrow> Param list \<times> Param list \<times> Param list
     \<Rightarrow> (Param list \<times> Param list \<times> Param list) exec" where
  "params_loop [] acc = Done acc"
| "params_loop (None # ps) acc = params_loop ps acc"
| "params_loop (Some p # ps) (pathParams, queryParams, headerParams) =
     (case compile_param p of
        Panic m \<Rightarrow> Panic m
      | Done param \<Rightarrow>
          params_loop ps
            (if param_In p = ''path'' then (pathParams @ [param], queryParams, headerParams)
             else if param_In p = ''query'' then (pathParams, queryParams @ [param], headerParams)
             else if param_In p = ''header'' then (pathParams, queryParams, headerParams @ [param])
             else (pathParams, queryParams, headerParams)))"

text \<open>
  \<open>slug.Make\<close> is the parameter \<open>slug\<close>; \<open>uriTemplate\<close> is passed as
  \<open>uriTemplate.String()\<close>, its only use.
\<close>

definition openapiOperation ::
  "(string \<Rightarrow> string) \<Rightarrow> ranges \<Rightarrow> string \<Rightarrow> string \<Rightarrow> PathItem \<Rightarrow> Operation3 \<Rightarrow> Operation exec" where
  "openapiOperation slug rs method uriTemplate path op =
     (case params_loop (path_Parameters path @ op_Parameters op) ([], [], []) of
        Panic m \<Rightarrow> Panic m
      | Done (pathParams, queryParams, headerParams) \<Rightarrow>
          Done \<lparr>o_Name = (if extStr (op_ExtensionProps op) ExtName \<noteq> ''''
                           then extStr (op_ExtensionProps op) ExtName
                           else slug (op_OperationID op)),
                o_Short = op_Summary op,
                o_Method = method,
                o_URITemplate = uriTemplate,
                o_PathParams = pathParams,
                o_QueryParams = queryParams,
                o_HeaderParams = headerParams,
                o_BodyMediaType =
                  (case op_RequestBody op of
                     Some (Some body) \<Rightarrow> fst (getRequestInfo rs op)
                   | _ \<Rightarrow> ''''),
                o_Hidden =
                  (case path_ExtensionProps path ExtHidden of
                     None \<Rightarrow> False
                   | Some raw \<Rightarrow> unmarshal_bool raw False)\<rparr>)"

subsection \<open>loadOpenAPI3\<close>

text \<open>
  The loop over \<open>swagger.Servers\<close>; \<open>pfx\<close> is \<open>location.Scheme + "://" + location.Host\<close>
  and the last argument the current \<open>basePath\<close>.
\<close>

fun basePath_loop :: "'u net_url \<Rightarrow> string \<Rightarrow> Server list \<Rightarrow> string \<Rightarrow> string + string" where
  "basePath_loop U pfx [] basePath = Inr basePath"
| "basePath_loop U pfx (s # ss) basePath =
     (if prefix pfx (URL s)
      then (case url_Parse U (URL s) of
              Inl err \<Rightarrow> Inl err
            | Inr base \<Rightarrow> basePath_loop U pfx ss (url_Path U base))
      else basePath_loop U pfx ss basePath)"

text \<open>
  The loop over \<open>path.Operations()\<close>. \<open>ignore\<close> is the variable declared in the outer
  loop; the test reads \<open>path.Extensions\<close> again.
\<close>

fun methods_loop ::
  "(string \<Rightarrow> string) \<Rightarrow> (string \<Rightarrow> ranges) \<Rightarrow> string \<Rightarrow> PathItem \<Rightarrow> bool
     \<Rightarrow> (string \<times> Operation3) list \<Rightarrow> Operation list \<Rightarrow> Operation list exec" where
  "methods_loop slug rs resolved path ignore [] operations = Done operations"
| "methods_loop slug rs resolved path ignore ((method, operation) # rest) operations =
     (let ignore' = (case path_ExtensionProps path ExtIgnore of
                       None \<Rightarrow> ignore
                     | Some raw \<Rightarrow> unmarshal_bool raw ignore)
      in if ignore' then methods_loop slug rs resolved path ignore' rest operations
         else (case openapiOperation slug (rs method) method resolved path operation of
                 Panic m \<Rightarrow> Panic m
               | Done compiled \<Rightarrow>
                   methods_loop slug rs resolved path ignore' rest (operations @ [compiled])))"

text \<open>
  The loop over \<open>swagger.Paths\<close>. \<open>Resolve\<close> is \<open>cfg.Resolve\<close>; \<open>rs uri method\<close> gives the
  orders of the three loops of \<open>getRequestInfo\<close> for that operation on this run.
\<close>

fun paths_loop ::
  "'u net_url \<Rightarrow> (string \<Rightarrow> string + 'u) \<Rightarrow> (string \<Rightarrow> string) \<Rightarrow> (string \<Rightarrow> string \<Rightarrow> ranges)
     \<Rightarrow> string \<Rightarrow> (string \<times> PathItem) list \<Rightarrow> Operation list \<Rightarrow> (string + Operation list) exec" where
  "paths_loop U Resolve slug rs basePath [] operations = Done (Inr operations)"
| "paths_loop U Resolve slug rs basePath ((uri, path) # rest) operations =
     (if (case path_ExtensionProps path ExtIgnore of
            None \<Rightarrow> False
          | Some raw \<Rightarrow> unmarshal_bool raw False)
      then paths_loop U Resolve slug rs basePath rest operations
      else (case Resolve (basePath @ uri) of
              Inl err \<Rightarrow> Done (Inl err)
            | Inr resolved \<Rightarrow>
                (case methods_loop slug (rs uri) (url_String U resolved) path False
                        (path_Operations path) operations of
                   Panic m \<Rightarrow> Panic m
                 | Done operations' \<Rightarrow>
                     paths_loop U Resolve slug rs basePath rest operations')))"

text \<open>
  \<open>loadOpenAPI3\<close> from the loaded document on: reading the response and
  \<open>LoadSwaggerFromDataWithPath\<close> come before and are not modelled.
\<close>

definition loadOpenAPI3 ::
  "'u net_url \<Rightarrow> (string \<Rightarrow> string + 'u) \<Rightarrow> (string \<Rightarrow> string) \<Rightarrow> (string \<Rightarrow> string \<Rightarrow> ranges)
     \<Rightarrow> 'u \<Rightarrow> Swagger \<Rightarrow> (string + API) exec" where
  "loadOpenAPI3 U Resolve slug rs location swagger =
     (case basePath_loop U (url_Scheme U location @ ''://'' @ url_Host U location)
             (Servers swagger) '''' of
        Inl err \<Rightarrow> Done (Inl err)
      | Inr basePath \<Rightarrow>
          (case paths_loop U Resolve slug rs basePath (Paths swagger) [] of
             Panic m \<Rightarrow> Panic m
           | Done (Inl err) \<Rightarrow> Done (Inl err)
           | Done (Inr operations) \<Rightarrow>
               Done (Inr \<lparr>api_Short = (case swagger_Info swagger of None \<Rightarrow> '''' | Some i \<Rightarrow> Title i),
                          api_Long = (case swagger_Info swagger of None \<Rightarrow> ''''
                                      | Some i \<Rightarrow> info_Description i),
                          Operations = operations\<rparr>)))"

text \<open>\<open>(*loader).Resolve\<close> and \<open>(*loader).Load\<close>.\<close>

definition loader_Resolve :: "'u net_url \<Rightarrow> 'u \<Rightarrow> string \<Rightarrow> string + 'u" where
  "loader_Resolve U base relURI =
     (case url_Parse U relURI of
        Inl err \<Rightarrow> Inl err
      | Inr parsed \<Rightarrow> Inr (url_ResolveReference U base parsed))"

definition loader_Load ::
  "'u net_url \<Rightarrow> (string \<Rightarrow> string) \<Rightarrow> (string \<Rightarrow> string \<Rightarrow> ranges) \<Rightarrow> 'u \<Rightarrow> 'u \<Rightarrow> Swagger
     \<Rightarrow> (string + API) exec" where
  "loader_Load U slug rs entrypoint spec swagger =
     loadOpenAPI3 U (loader_Resolve U entrypoint) slug rs spec swagger"

subsection \<open>What the compiler is to produce\<close>

text \<open>The parameters a list of references declares, in order: the references that are not nil.\<close>

fun declared :: "ParameterRef list \<Rightarrow> Parameter list" where
  "declared [] = []"
| "declared (None # ps) = declared ps"
| "declared (Some p # ps) = p # declared ps"



section \<open>operation.go: running a compiled operation\<close>

subsection \<open>Comparing, testing and printing values\<close>

text \<open>\<open>float64\<close> equality on the bits: a NaN equals nothing, and the two zeros are equal.\<close>

definition f64_isNaN :: "64 word \<Rightarrow> bool" where
  "f64_isNaN w = (w AND 0x7FF0000000000000 = 0x7FF0000000000000 \<and> w AND 0x000FFFFFFFFFFFFF \<noteq> 0)"

definition f64_eq :: "64 word \<Rightarrow> 64 word \<Rightarrow> bool" where
  "f64_eq a b = (\<not> f64_isNaN a \<and> \<not> f64_isNaN b \<and> (a = b \<or> (a OR b) AND 0x7FFFFFFFFFFFFFFF = 0))"

text \<open>The dynamic type of a value.\<close>

fun dyn_type :: "pval \<Rightarrow> string" where
  "dyn_type PNil = ''nil''"
| "dyn_type (PBool b) = ''bool''"
| "dyn_type (PInt i) = ''int''"
| "dyn_type (PFloat64 f) = ''float64''"
| "dyn_type (PString s) = ''string''"
| "dyn_type (PSlice t xs) = ''[]'' @ t"
| "dyn_type (PNilSlice t) = ''[]'' @ t"

text \<open>
  \<open>a == b\<close> on two \<open>interface{}\<close> values: equal when both are nil, or when the dynamic
  types are identical and the values equal; values of different dynamic types are
  unequal; comparing two values of one slice type panics.
\<close>

fun iface_eq :: "pval \<Rightarrow> pval \<Rightarrow> bool exec" where
  "iface_eq PNil b = Done (b = PNil)"
| "iface_eq a PNil = Done False"
| "iface_eq (PFloat64 x) (PFloat64 y) = Done (f64_eq x y)"
| "iface_eq (PSlice t xs) b =
     (if dyn_type b = ''[]'' @ t then Panic ''comparing uncomparable type'' else Done False)"
| "iface_eq (PNilSlice t) b =
     (if dyn_type b = ''[]'' @ t then Panic ''comparing uncomparable type'' else Done False)"
| "iface_eq a b = Done (a = b)"

text \<open>
  \<open>reflect.Value.IsZero\<close> on the value a flag is bound to. A slice is zero when it is
  nil. The test of a \<open>float64\<close> depends on the toolchain (the bits are zero, before Go
  1.22; the value equals zero, negative zero included, since) and is the parameter
  \<open>fzero\<close>. The loops never apply \<open>IsZero\<close> to \<open>PNil\<close> (see \<open>flag_value\<close>).
\<close>

fun IsZero :: "(64 word \<Rightarrow> bool) \<Rightarrow> pval \<Rightarrow> bool" where
  "IsZero fzero (PBool b) = (\<not> b)"
| "IsZero fzero (PInt i) = (i = 0)"
| "IsZero fzero (PFloat64 f) = fzero f"
| "IsZero fzero (PString s) = (s = '''')"
| "IsZero fzero (PSlice t xs) = False"
| "IsZero fzero (PNilSlice t) = True"
| "IsZero fzero PNil = True"

text \<open>\<open>rv.Kind() == reflect.Slice && rv.Len() == 0\<close>.\<close>

fun empty_slice :: "pval \<Rightarrow> bool" where
  "empty_slice (PSlice t xs) = (xs = [])"
| "empty_slice (PNilSlice t) = True"
| "empty_slice _ = False"

text \<open>Decimal digits of a natural number and of an integer.\<close>

fun show_nat :: "nat \<Rightarrow> string" where
  "show_nat n =
     (if n < 10 then [''0123456789'' ! n]
      else show_nat (n div 10) @ [''0123456789'' ! (n mod 10)])"

definition show_int :: "int \<Rightarrow> string" where
  "show_int i = (if i < 0 then ''-'' @ show_nat (nat (- i)) else show_nat (nat i))"

fun join_with :: "string \<Rightarrow> string list \<Rightarrow> string" where
  "join_with sep [] = []"
| "join_with sep [x] = x"
| "join_with sep (x # y # ys) = x @ sep @ join_with sep (y # ys)"

text \<open>
  \<open>fmt.Sprintf("%v", v)\<close>. The text of a \<open>float64\<close> is the parameter \<open>ffmt\<close>.
\<close>

fun sprint_v :: "(64 word \<Rightarrow> string) \<Rightarrow> pval \<Rightarrow> string" where
  "sprint_v ffmt PNil = ''<nil>''"
| "sprint_v ffmt (PBool b) = (if b then ''true'' else ''false'')"
| "sprint_v ffmt (PInt i) = show_int i"
| "sprint_v ffmt (PFloat64 f) = ffmt f"
| "sprint_v ffmt (PString s) = s"
| "sprint_v ffmt (PSlice t xs) = ''['' @ join_with '' '' (map (sprint_v ffmt) xs) @ '']''"
| "sprint_v ffmt (PNilSlice t) = ''[]''"

text \<open>
  \<open>strings.Replace(s, old, new, 1)\<close>: the first occurrence of \<open>old\<close> is replaced; an
  empty \<open>old\<close> matches at the start.
\<close>

fun replace_first :: "string \<Rightarrow> string \<Rightarrow> string \<Rightarrow> string" where
  "replace_first old new [] = (if old = [] then new else [])"
| "replace_first old new (c # cs) =
     (if prefix old (c # cs) then new @ drop (length old) (c # cs)
      else c # replace_first old new cs)"

subsection \<open>Param.Serialize\<close>

text \<open>
  Modelled from the spec: \<open>Param.Serialize\<close> is a method of \<open>cli.Param\<close>, whose file
  is not among the sources. The spec: a scalar value gives one string, its canonical
  text, under either style; an array value gives a single comma-joined string under
  \<open>simple\<close>, and under \<open>form\<close> without \<open>explode\<close>, and one string per element under
  \<open>form\<close> with \<open>explode\<close>.
\<close>

definition Serialize :: "(64 word \<Rightarrow> string) \<Rightarrow> Param \<Rightarrow> pval \<Rightarrow> string list" where
  "Serialize ffmt p v =
     (case v of
        PSlice t xs \<Rightarrow>
          (if Style p = StyleForm \<and> Explode p then map (sprint_v ffmt) xs
           else [join_with '','' (map (sprint_v ffmt) xs)])
      | PNilSlice t \<Rightarrow> (if Style p = StyleForm \<and> Explode p then [] else [''''])
      | _ \<Rightarrow> [sprint_v ffmt v])"

subsection \<open>The command's Run function\<close>

text \<open>
  What \<open>Run\<close> calls outside this file: \<open>Param.Parse\<close> (an error text or the parsed
  value), the text of a \<open>float64\<close> and its zero test, \<open>url.Values.Encode\<close>,
  \<open>textproto.CanonicalMIMEHeaderKey\<close> (applied by \<open>http.Header.Add\<close>), \<open>GetBody\<close> (an
  error text or the body), and whether \<open>http.NewRequest\<close> accepts a method and a URL.
\<close>

record deps =
  Parse :: "Param \<Rightarrow> string \<Rightarrow> string + pval"
  format_float :: "64 word \<Rightarrow> string"
  float_IsZero :: "64 word \<Rightarrow> bool"
  Encode :: "(string \<rightharpoonup> string list) \<Rightarrow> string"
  CanonicalHeaderKey :: "string \<Rightarrow> string"
  GetBody :: "string \<Rightarrow> string list \<Rightarrow> string + string"
  NewRequest_ok :: "string \<Rightarrow> string \<Rightarrow> bool"

text \<open>The request handed to \<open>MakeRequestAndFormat\<close>.\<close>

record Request =
  req_Method :: string
  req_URL :: string
  req_Header :: "string \<rightharpoonup> string list"
  req_Body :: "string option"

text \<open>
  How \<open>Run\<close> ends when it does not panic: \<open>MakeRequestAndFormat req\<close> is called, or
  \<open>log.Fatalf\<close> has written the message and ended the process.
\<close>

datatype outcome = MakeRequestAndFormat Request | Fatalf string

text \<open>
  \<open>cobra.ExactArgs(len(o.PathParams))\<close>, and \<open>cobra.MinimumNArgs\<close> of the same number
  when the operation takes a body. Cobra calls \<open>Run\<close> only with arguments that pass.
\<close>

definition argSpec :: "Operation \<Rightarrow> string list \<Rightarrow> bool" where
  "argSpec o' args =
     (if o_BodyMediaType o' \<noteq> '''' then length (o_PathParams o') \<le> length args
      else length args = length (o_PathParams o'))"

text \<open>
  The loop over \<open>o.PathParams\<close>, with the arguments from \<open>args[i]\<close> on: \<open>Inl\<close> is the
  message of \<open>log.Fatalf\<close>, \<open>Inr\<close> the URI after the loop.
\<close>

fun path_loop :: "deps \<Rightarrow> Param list \<Rightarrow> string list \<Rightarrow> string \<Rightarrow> (string + string) exec" where
  "path_loop D [] args uri = Done (Inr uri)"
| "path_loop D (param # ps) [] uri = Panic ''index out of range''"
| "path_loop D (param # ps) (arg # args) uri =
     (case Parse D param arg of
        Inl err \<Rightarrow>
          (case Serialize (format_float D) param (PString arg) of
             [] \<Rightarrow> Panic ''index out of range''
           | v # vs \<Rightarrow>
               Done (Inl (''could not parse param '' @ Name param @ '' with input '' @ v
                          @ '': '' @ err)))
      | Inr v \<Rightarrow>
          path_loop D ps args
            (replace_first (''{'' @ Name param @ ''}'') (sprint_v (format_float D) v) uri))"

text \<open>
  \<open>reflect.ValueOf(flags[name]).Elem()\<close>: \<open>flags\<close> maps a name to the value its flag is
  bound to. A name without a flag gives the zero \<open>reflect.Value\<close>, on which \<open>Elem\<close>
  panics; a flag is bound to a typed value, never to the nil interface.
\<close>

definition flag_value :: "(string \<rightharpoonup> pval) \<Rightarrow> string \<Rightarrow> pval exec" where
  "flag_value flags name =
     (case flags name of
        None \<Rightarrow> Panic ''reflect: call of reflect.Value.Elem on zero Value''
      | Some PNil \<Rightarrow> Panic ''reflect: call of reflect.Value.Elem on zero Value''
      | Some v \<Rightarrow> Done v)"

text \<open>\<open>url.Values.Add\<close>, and the loop that adds every serialized string.\<close>

definition values_Add :: "(string \<rightharpoonup> string list) \<Rightarrow> string \<Rightarrow> string \<Rightarrow> (string \<rightharpoonup> string list)" where
  "values_Add q key v = q(key \<mapsto> (case q key of None \<Rightarrow> [] | Some vs \<Rightarrow> vs) @ [v])"

fun add_each :: "(string \<rightharpoonup> string list) \<Rightarrow> string \<Rightarrow> string list \<Rightarrow> (string \<rightharpoonup> string list)" where
  "add_each q key [] = q"
| "add_each q key (v # vs) = add_each (values_Add q key v) key vs"

text \<open>The loop over \<open>o.QueryParams\<close>.\<close>

fun query_loop ::
  "deps \<Rightarrow> (string \<rightharpoonup> pval) \<Rightarrow> Param list \<Rightarrow> (string \<rightharpoonup> string list)
     \<Rightarrow> (string \<rightharpoonup> string list) exec" where
  "query_loop D flags [] query = Done query"
| "query_loop D flags (param # ps) query =
     (case flag_value flags (Name param) of
        Panic m \<Rightarrow> Panic m
      | Done v \<Rightarrow>
          (case iface_eq v (Default param) of
             Panic m \<Rightarrow> Panic m
           | Done eq \<Rightarrow>
               (if eq then query_loop D flags ps query
                else if Default param = PNil \<and> IsZero (float_IsZero D) v then query_loop D flags ps query
                else query_loop D flags ps
                       (add_each query (Name param) (Serialize (format_float D) param v)))))"

text \<open>The loop over \<open>o.HeaderParams\<close>; \<open>http.Header.Add\<close> stores under the canonical key.\<close>

fun header_loop ::
  "deps \<Rightarrow> (string \<rightharpoonup> pval) \<Rightarrow> Param list \<Rightarrow> (string \<rightharpoonup> string list)
     \<Rightarrow> (string \<rightharpoonup> string list) exec" where
  "header_loop D flags [] headers = Done headers"
| "header_loop D flags (param # ps) headers =
     (case flag_value flags (Name param) of
        Panic m \<Rightarrow> Panic m
      | Done rv \<Rightarrow>
          (case iface_eq rv (Default param) of
             Panic m \<Rightarrow> Panic m
           | Done eq \<Rightarrow>
               (if eq then header_loop D flags ps headers
                else if Default param = PNil \<and> (IsZero (float_IsZero D) rv \<or> empty_slice rv)
                  then header_loop D flags ps headers
                else header_loop D flags ps
                       (add_each headers (CanonicalHeaderKey D (Name param))
                          (Serialize (format_float D) param rv)))))"

definition Run :: "deps \<Rightarrow> Operation \<Rightarrow> (string \<rightharpoonup> pval) \<Rightarrow> string list \<Rightarrow> outcome exec" where
  "Run D o' flags args =
     (case path_loop D (o_PathParams o') args (o_URITemplate o') of
        Panic m \<Rightarrow> Panic m
      | Done (Inl msg) \<Rightarrow> Done (Fatalf msg)
      | Done (Inr uri) \<Rightarrow>
          (case query_loop D flags (o_QueryParams o') Map.empty of
             Panic m \<Rightarrow> Panic m
           | Done query \<Rightarrow>
               (let queryEncoded = Encode D query;
                    uri' = (if queryEncoded \<noteq> ''''
                            then uri @ (if contains uri ''?'' then ''&'' else ''?'') @ queryEncoded
                            else uri)
                in case header_loop D flags (o_HeaderParams o') Map.empty of
                     Panic m \<Rightarrow> Panic m
                   | Done headers \<Rightarrow>
                       (case (if o_BodyMediaType o' \<noteq> ''''
                              then (case GetBody D (o_BodyMediaType o')
                                           (drop (length (o_PathParams o')) args) of
                                      Inl err \<Rightarrow> Panic err
                                    | Inr b \<Rightarrow> Done (Some b))
                              else Done None) of
                          Panic m \<Rightarrow> Panic m
                        | Done body \<Rightarrow>
                            (if NewRequest_ok D (o_Method o') uri'
                             then Done (MakeRequestAndFormat
                                          \<lparr>req_Method = o_Method o', req_URL = uri',
                                           req_Header = headers, req_Body = body\<rparr>)
                             else Panic ''nil pointer dereference'')))))"

section \<open>Decoders and inputs for worked examples\<close>

text \<open>
  The parsers take \<open>mapstructure.Decode\<close> and \<open>link.Parse\<close> as parameters. Where a
  statement is evaluated at a concrete body, they are instantiated with the functions
  below: they decode a map with string keys whose dialect key, when present, holds
  entries of the dialect's types, leaving a field that is missing at its zero value
  (no links, an empty href, no relation), and report an error on a value of another
  type.
\<close>

fun hal_link_of :: "gval \<Rightarrow> halLink option" where
  "hal_link_of (GMap kvs) =
     (case map_of kvs (GString ''href'') of
        None \<Rightarrow> Some \<lparr>Href = ''''\<rparr>
      | Some (GString h) \<Rightarrow> Some \<lparr>Href = h\<rparr>
      | Some _ \<Rightarrow> None)"
| "hal_link_of _ = None"

fun hal_entries :: "(gval \<times> gval) list \<Rightarrow> (string \<times> halLink) list option" where
  "hal_entries [] = Some []"
| "hal_entries ((GString rel, v) # es) =
     (case (hal_link_of v, hal_entries es) of
        (Some l, Some rest) \<Rightarrow> Some ((rel, l) # rest)
      | _ \<Rightarrow> None)"
| "hal_entries _ = None"

definition decode_hal :: "gval \<Rightarrow> string + halBody" where
  "decode_hal body =
     (case body of
        GMap es \<Rightarrow>
          (case map_of es (GString ''_links'') of
             None \<Rightarrow> Inr \<lparr>hal_Links = []\<rparr>
           | Some (GMap ls) \<Rightarrow>
               (case hal_entries ls of
                  Some xs \<Rightarrow> Inr \<lparr>hal_Links = xs\<rparr>
                | None \<Rightarrow> Inl ''cannot decode _links'')
           | Some _ \<Rightarrow> Inl ''cannot decode _links'')
      | _ \<Rightarrow> Inl ''expected a map'')"

fun siren_rels :: "gval list \<Rightarrow> string list option" where
  "siren_rels [] = Some []"
| "siren_rels (GString r # rs) = map_option ((#) r) (siren_rels rs)"
| "siren_rels _ = None"

fun siren_link_of :: "gval \<Rightarrow> sirenLink option" where
  "siren_link_of (GMap kvs) =
     (case (case map_of kvs (GString ''rel'') of
              None \<Rightarrow> Some []
            | Some (GSlice rs) \<Rightarrow> siren_rels rs
            | Some _ \<Rightarrow> None,
            case map_of kvs (GString ''href'') of
              None \<Rightarrow> Some ''''
            | Some (GString h) \<Rightarrow> Some h
            | Some _ \<Rightarrow> None) of
        (Some rels, Some h) \<Rightarrow> Some \<lparr>siren_Rel = rels, siren_Href = h\<rparr>
      | _ \<Rightarrow> None)"
| "siren_link_of _ = None"

fun siren_entries :: "gval list \<Rightarrow> sirenLink list option" where
  "siren_entries [] = Some []"
| "siren_entries (v # vs) =
     (case (siren_link_of v, siren_entries vs) of
        (Some l, Some rest) \<Rightarrow> Some (l # rest)
      | _ \<Rightarrow> None)"

definition decode_siren :: "gval \<Rightarrow> string + sirenBody" where
  "decode_siren body =
     (case body of
        GMap es \<Rightarrow>
          (case map_of es (GString ''links'') of
             None \<Rightarrow> Inr \<lparr>siren_Links = []\<rparr>
           | Some (GSlice ls) \<Rightarrow>
               (case siren_entries ls of
                  Some xs \<Rightarrow> Inr \<lparr>siren_Links = xs\<rparr>
                | None \<Rightarrow> Inl ''cannot decode links'')
           | Some _ \<Rightarrow> Inl ''cannot decode links'')
      | _ \<Rightarrow> Inl ''expected a map'')"

text \<open>A \<open>link.Parse\<close> for headers that are not link headers: it rejects its input.\<close>

definition reject_header :: "string \<Rightarrow> string + (string \<times> string) list" where
  "reject_header h = Inl ''link: malformed header''"

text \<open>A response with the given \<open>Link\<close> header (none when empty), links map and body.\<close>

definition response :: "string \<Rightarrow> Links option \<Rightarrow> gval \<Rightarrow> Response" where
  "response link_header links body =
     \<lparr>Proto = ''HTTP/1.1'', Status = 200,
      Headers = (if link_header = '''' then Map.empty else [''Link'' \<mapsto> link_header]),
      Links = links, Body = body\<rparr>"

text \<open>\<open>{"_links": {"curies": {"href": "/docs"}, "next": {"href": "/page/2"}}}\<close>\<close>

definition hal_body :: gval where
  "hal_body =
     GMap [(GString ''_links'',
            GMap [(GString ''curies'', GMap [(GString ''href'', GString ''/docs'')]),
                  (GString ''next'', GMap [(GString ''href'', GString ''/page/2'')])])]"

text \<open>\<open>{"links": [{"rel": ["next"], "href": "/page/2"}]}\<close>\<close>

definition siren_body :: gval where
  "siren_body =
     GMap [(GString ''links'',
            GSlice [GMap [(GString ''rel'', GSlice [GString ''next'']),
                          (GString ''href'', GString ''/page/2'')]])]"


text \<open>\<open>{"name": "w", "tags": ["t"]}\<close>: no link of any dialect.\<close>

definition plain_body :: gval where
  "plain_body =
     GMap [(GString ''name'', GString ''w''), (GString ''tags'', GSlice [GString ''t''])]"

text \<open>The parsed \<open>https://api.example.com/widgets\<close>.\<close>

definition widgets_base :: url where
  "widgets_base =
     \<lparr>u_Scheme = ''https'', u_Opaque = '''', u_Host = ''api.example.com'', u_Path = ''/widgets''\<rparr>"

text \<open>\<open>{"id": 9, "self": "/widgets/9"}\<close> and \<open>{"self": ":bad"}\<close>\<close>

definition widget_body :: gval where
  "widget_body = GMap [(GString ''id'', GInt 9), (GString ''self'', GString ''/widgets/9'')]"

definition bad_self_body :: gval where
  "bad_self_body = GMap [(GString ''self'', GString '':bad'')]"

text \<open>
  \<open>{"a": {"self": "/widgets/1"},
     "b": [{"self": "/widgets/2"}, {"self": ":bad"}, {"self": "/widgets/3"}],
     "c": {"self": "/widgets/4"}}\<close>: the walk records one link under \<open>a\<close>, three under
  \<open>b-item\<close>, the second of which \<open>url.Parse\<close> rejects, and one under \<open>c\<close>.
\<close>

definition mixed_body :: gval where
  "mixed_body =
     GMap [(GString ''a'', GMap [(GString ''self'', GString ''/widgets/1'')]),
           (GString ''b'', GSlice [GMap [(GString ''self'', GString ''/widgets/2'')],
                                   GMap [(GString ''self'', GString '':bad'')],
                                   GMap [(GString ''self'', GString ''/widgets/3'')]]),
           (GString ''c'', GMap [(GString ''self'', GString ''/widgets/4'')])]"

text \<open>The links map recorded for that body, holding the given URIs.\<close>

definition mixed_links :: "string \<Rightarrow> string \<Rightarrow> string \<Rightarrow> string \<Rightarrow> string \<Rightarrow> Links" where
  "mixed_links a b1 b2 b3 c =
     [''a'' \<mapsto> [\<lparr>Rel = ''a'', URI = a\<rparr>],
      ''b-item'' \<mapsto> [\<lparr>Rel = ''b-item'', URI = b1\<rparr>, \<lparr>Rel = ''b-item'', URI = b2\<rparr>,
                     \<lparr>Rel = ''b-item'', URI = b3\<rparr>],
      ''c'' \<mapsto> [\<lparr>Rel = ''c'', URI = c\<rparr>]]"

subsection \<open>Documents\<close>

text \<open>
  \<open>slug.Make\<close> is instantiated with the identity: the operation identifiers below are
  lower-case words joined by hyphens, which \<open>slug.Make\<close> returns as they are.
\<close>

definition slug_id :: "string \<Rightarrow> string" where
  "slug_id s = s"

text \<open>A query parameter \<open>limit\<close> of the given schema type and description.\<close>

definition limit_param :: "string \<Rightarrow> string \<Rightarrow> Parameter" where
  "limit_param typ descr =
     \<lparr>param_ExtensionProps = Map.empty, param_Name = ''limit'', param_In = ''query'',
      param_Description = descr, param_Style = ''form'', param_Explode = None,
      param_Schema = Some (Some (Schema typ None PNil PNil)), param_Example = PNil\<rparr>"

text \<open>An operation with the given identifier, extensions, parameters and request body.\<close>

definition operation3 ::
  "string \<Rightarrow> ExtensionProps \<Rightarrow> ParameterRef list \<Rightarrow> RequestBody option option \<Rightarrow> Operation3" where
  "operation3 ident exts params body =
     \<lparr>op_ExtensionProps = exts, op_OperationID = ident, op_Summary = '''',
      op_Description = '''', op_Parameters = params, op_RequestBody = body\<rparr>"

definition empty_media :: MediaType where
  "empty_media = \<lparr>mt_Schema = None, mt_Example = PNil, mt_Examples = []\<rparr>"

text \<open>A request body declaring the given media types.\<close>

definition body_of :: "string list \<Rightarrow> RequestBody option option" where
  "body_of mts = Some (Some \<lparr>Content = map_of (map (\<lambda>mt. (mt, empty_media)) mts)\<rparr>)"

text \<open>
  The path item \<open>/items\<close>: a path-level query parameter \<open>limit\<close> of type integer, and the
  given operations.
\<close>

definition items_path :: "(string \<times> Operation3) list \<Rightarrow> PathItem" where
  "items_path ops =
     \<lparr>path_ExtensionProps = Map.empty,
      path_Parameters = [Some (limit_param ''integer'' ''page size'')],
      path_Operations = ops\<rparr>"

text \<open>\<open>list-items\<close> declares \<open>limit\<close> again, as a string.\<close>

definition list_items :: Operation3 where
  "list_items =
     operation3 ''list-items'' Map.empty [Some (limit_param ''string'' ''page token'')] None"

text \<open>\<open>purge-items\<close> carries \<open>x-cli-ignore: true\<close>.\<close>

definition purge_items :: Operation3 where
  "purge_items = operation3 ''purge-items'' [ExtIgnore \<mapsto> JBool True] [] None"

text \<open>\<open>create-item\<close> takes a body of the given media types.\<close>

definition create_item :: "string list \<Rightarrow> Operation3" where
  "create_item mts = operation3 ''create-item'' Map.empty [] (body_of mts)"

text \<open>A document with the given server URLs and the path \<open>/items\<close> with the given operations.\<close>

definition servers_doc :: "string list \<Rightarrow> (string \<times> Operation3) list \<Rightarrow> Swagger" where
  "servers_doc urls ops =
     \<lparr>Servers = map (\<lambda>u. \<lparr>URL = u\<rparr>) urls,
      Paths = [(''/items'', items_path ops)],
      swagger_Info = Some \<lparr>Title = ''Items'', info_Description = ''''\<rparr>\<rparr>"

text \<open>
  The document with the servers \<open>https://api.example.com/v1\<close> and
  \<open>https://api.example.com/v2\<close>, in this order.
\<close>

definition items_doc :: "(string \<times> Operation3) list \<Rightarrow> Swagger" where
  "items_doc ops = servers_doc [''https://api.example.com/v1'', ''https://api.example.com/v2''] ops"

text \<open>
  The parsed \<open>https://api.example.com\<close>, \<open>https://api.example.com/openapi.json\<close> and
  \<open>https://gateway.example.org\<close>.
\<close>

definition gateway_entrypoint :: url where
  "gateway_entrypoint =
     \<lparr>u_Scheme = ''https'', u_Opaque = '''', u_Host = ''gateway.example.org'', u_Path = ''''\<rparr>"

definition api_entrypoint :: url where
  "api_entrypoint =
     \<lparr>u_Scheme = ''https'', u_Opaque = '''', u_Host = ''api.example.com'', u_Path = ''''\<rparr>"

definition api_spec :: url where
  "api_spec =
     \<lparr>u_Scheme = ''https'', u_Opaque = '''', u_Host = ''api.example.com'',
      u_Path = ''/openapi.json''\<rparr>"

text \<open>No operation below has a request body, or the order is given: the empty orders.\<close>

definition no_ranges :: ranges where
  "no_ranges = ([], [], [])"

text \<open>The compiled parameter \<open>limit\<close> of the given type and description.\<close>

definition limit_compiled :: "string \<Rightarrow> string \<Rightarrow> Param" where
  "limit_compiled typ descr =
     \<lparr>Type = typ, Name = ''limit'', DisplayName = '''', Description = descr, Style = StyleForm,
      Explode = False, Default = PNil, Example = PNil\<rparr>"

text \<open>
  The compiled operation of the given name, method and URI template, with no body and
  the given query parameters.
\<close>

definition compiled_op :: "string \<Rightarrow> string \<Rightarrow> string \<Rightarrow> Param list \<Rightarrow> Operation" where
  "compiled_op name method uri query =
     \<lparr>o_Name = name, o_Short = '''', o_Method = method, o_URITemplate = uri,
      o_PathParams = [], o_QueryParams = query, o_HeaderParams = [],
      o_BodyMediaType = '''', o_Hidden = False\<rparr>"


subsection \<open>Commands\<close>

text \<open>
  Modelled from the spec: \<open>Param.Parse\<close> is a method of \<open>cli.Param\<close>, whose file is not
  among the sources; \<open>Run\<close> takes it as a parameter. The spec: it turns the CLI string
  into a typed value and fails, for example, on non-numeric text for an integer-typed
  path parameter. This instance reads decimal digits for the type \<open>integer\<close> and takes
  the argument as it is for every other type.
\<close>

definition digit_value :: "char \<Rightarrow> nat" where
  "digit_value c = length (takeWhile (\<lambda>d. d \<noteq> c) ''0123456789'')"

definition decimal :: "string \<Rightarrow> bool" where
  "decimal s = (s \<noteq> [] \<and> list_all (\<lambda>c. c \<in> set ''0123456789'') s)"

definition digits_Parse :: "Param \<Rightarrow> string \<Rightarrow> string + pval" where
  "digits_Parse p s =
     (if Type p = ''integer''
      then (if decimal s then Inr (PInt (int (foldl (\<lambda>n c. 10 * n + digit_value c) 0 s)))
            else Inl ''invalid syntax'')
      else Inr (PString s))"

text \<open>
  The other collaborators of \<open>Run\<close> for the runs below, which bind no query or header
  parameter and send no body: \<open>Encode\<close> of the empty \<open>url.Values\<close> is the empty string,
  \<open>http.NewRequest\<close> accepts the method and URL, and a \<open>float64\<close> is zero when it
  equals zero (negative zero included, as since Go 1.22).
\<close>

definition cli_deps :: deps where
  "cli_deps =
     \<lparr>Parse = digits_Parse, format_float = (\<lambda>w. ''''),
      float_IsZero = (\<lambda>w. f64_eq w 0), Encode = (\<lambda>q. ''''),
      CanonicalHeaderKey = (\<lambda>k. k), GetBody = (\<lambda>mt args. Inl ''no body''),
      NewRequest_ok = (\<lambda>method uri. True)\<rparr>"

text \<open>A parameter of the given type and name, simple style, no explode, no default.\<close>

definition plain_param :: "string \<Rightarrow> string \<Rightarrow> Param" where
  "plain_param typ name =
     \<lparr>Type = typ, Name = name, DisplayName = '''', Description = '''', Style = StyleSimple,
      Explode = False, Default = PNil, Example = PNil\<rparr>"

text \<open>\<open>get-post\<close>: \<open>GET /users/{id}/posts/{postId}\<close>, with \<open>id\<close> an integer.\<close>

definition get_post :: Operation where
  "get_post =
     \<lparr>o_Name = ''get-post'', o_Short = '''', o_Method = ''GET'',
      o_URITemplate = ''/users/{id}/posts/{postId}'',
      o_PathParams = [plain_param ''integer'' ''id'', plain_param ''string'' ''postId''],
      o_QueryParams = [], o_HeaderParams = [], o_BodyMediaType = '''', o_Hidden = False\<rparr>"

section \<open>Properties of the link resolver\<close>

lemmas url_defs = simple_url_def simple_Parse_def parseHost_def validOptionalPort_def
  getScheme_def is_letter_def is_scheme_char_def simple_ResolveReference_def simple_String_def
  resolvePath_def

lemmas links_defs = links_at_def add_link_def links_append_def links_get_def

subsection \<open>The self-link walk\<close>

lemma record_links_append:
  "record_links resp (xs @ ys) = record_links (record_links resp xs) ys"
  by (induction xs arbitrary: resp) auto

lemma walk_record:
  "walk sprint resp key v = record_links resp (self_links sprint key v)"
  "walk_items sprint resp key xs = record_links resp (self_links_items sprint key xs)"
  "walk_entries sprint resp key es = record_links resp (self_links_entries sprint key es)"
proof (induction sprint resp key v and sprint resp key xs and sprint resp key es
       rule: walk_walk_items_walk_entries.induct)
  case (12 sprint resp key k v es)
  then show ?case
    by (cases k) (auto simp: record_links_append)
qed (auto simp: record_links_append)





subsection \<open>Running the parsers\<close>

lemma run_parsers_append:
  "run_parsers ps resp = Done (r, None) \<Longrightarrow> run_parsers (ps @ qs) resp = run_parsers qs r"
  by (induction ps arbitrary: resp) (auto split: exec.splits option.splits prod.splits)

lemma run_parsers_single: "run_parsers [p] r = p r"
  by (auto split: exec.splits option.splits prod.splits)

lemma hal_loop_curies:
  "\<forall>(rel, l) \<in> set xs. rel = ''curies'' \<Longrightarrow> hal_links_loop resp xs = Done resp"
  by (induction resp xs rule: hal_links_loop.induct) auto

lemma siren_loop_absent:
  "\<forall>l \<in> set xs. siren_Href l = '''' \<or> siren_Rel l = [] \<Longrightarrow> siren_links_loop resp xs = Done resp"
  by (induction resp xs rule: siren_links_loop.induct) auto

text \<open>
  C7. A parser added with \<open>AddLinkParser\<close> runs after the parsers registered before
  it, on the response they leave: once the parsers \<open>ps\<close> have returned without error,
  leaving \<open>r\<close>, \<open>ParseLinks\<close> with further parsers behaves as \<open>ParseLinks\<close> with those
  parsers alone on \<open>r\<close>, and with no links map in \<open>r\<close> and no further parser it
  returns \<open>r\<close>. When a parser returns an error, \<open>ParseLinks\<close> returns that error with
  the response as that parser left it, whatever parsers follow. A parser that returns no
  error and leaves the response as it was is passed over, by \<open>ParseLinks\<close> as by the
  loop over the parsers. Each built-in parser does so when its dialect is absent: no
  \<open>Link\<close> header; a body that does not decode as HAL, or decodes with no relation but
  \<open>curies\<close>; a body that does not decode as Siren, or decodes with no entry that has
  both an href and a relation; a body in which the walk finds no \<open>self\<close> key.
\<close>

theorem ParseLinks_order_and_errors:
  "(run_parsers ps resp = Done (r, None) \<longrightarrow> run_parsers (AddLinkParser ps p) resp = p r)
   \<and> (run_parsers ps resp = Done (r, None)
        \<longrightarrow> ParseLinks U (ps @ qs) ks base resp = ParseLinks U qs ks base r)
   \<and> (run_parsers ps resp = Done (r, None)
        \<longrightarrow> ParseLinks U (AddLinkParser ps p) ks base resp = ParseLinks U [p] ks base r)
   \<and> (run_parsers ps resp = Done (r, None) \<and> Links r = None
        \<longrightarrow> ParseLinks U ps ks base resp = Done (r, None))
   \<and> (run_parsers ps resp = Done (r, None) \<and> p r = Done (r', Some err)
        \<longrightarrow> ParseLinks U (ps @ p # later) ks base resp = Done (r', Some err))
   \<and> (p r = Done (r, None) \<longrightarrow> run_parsers (p # later) r = run_parsers later r)
   \<and> (p r = Done (r, None)
        \<longrightarrow> ParseLinks U (p # later) ks base r = ParseLinks U later ks base r)
   \<and> (header_get r ''Link'' = '''' \<longrightarrow> LinkHeaderParser_ParseLinks link_Parse r = Done (r, None))
   \<and> (DecodeH (Body r) = Inl e
        \<or> (\<exists>hal. DecodeH (Body r) = Inr hal \<and> (\<forall>(rel, l) \<in> set (hal_Links hal). rel = ''curies''))
        \<longrightarrow> HALParser_ParseLinks DecodeH r = Done (r, None))
   \<and> (DecodeS (Body r) = Inl e
        \<or> (\<exists>siren. DecodeS (Body r) = Inr siren
              \<and> (\<forall>l \<in> set (siren_Links siren). siren_Href l = '''' \<or> siren_Rel l = []))
        \<longrightarrow> SirenParser_ParseLinks DecodeS r = Done (r, None))
   \<and> (self_links sprint ''self'' (Body r) = []
        \<longrightarrow> TerrificallySimpleJSONParser_ParseLinks sprint r = Done (r, None))"
proof (intro conjI impI)
  assume "run_parsers ps resp = Done (r, None)"
  then show "run_parsers (AddLinkParser ps p) resp = p r"
    by (simp add: AddLinkParser_def run_parsers_append split: exec.splits option.splits prod.splits)
next
  assume "run_parsers ps resp = Done (r, None)"
  then have "run_parsers (ps @ qs) resp = run_parsers qs r"
    by (rule run_parsers_append)
  then show "ParseLinks U (ps @ qs) ks base resp = ParseLinks U qs ks base r"
    by (simp add: ParseLinks_def)
next
  assume "run_parsers ps resp = Done (r, None)"
  then have "run_parsers (ps @ [p]) resp = run_parsers [p] r"
    by (rule run_parsers_append)
  then show "ParseLinks U (AddLinkParser ps p) ks base resp = ParseLinks U [p] ks base r"
    by (simp add: ParseLinks_def AddLinkParser_def)
next
  assume "run_parsers ps resp = Done (r, None) \<and> Links r = None"
  then show "ParseLinks U ps ks base resp = Done (r, None)"
    by (simp add: ParseLinks_def)
next
  assume a: "run_parsers ps resp = Done (r, None) \<and> p r = Done (r', Some err)"
  then have "run_parsers (ps @ p # later) resp = run_parsers (p # later) r"
    by (simp add: run_parsers_append)
  with a show "ParseLinks U (ps @ p # later) ks base resp = Done (r', Some err)"
    by (simp add: ParseLinks_def)
next
  assume "p r = Done (r, None)"
  then show "run_parsers (p # later) r = run_parsers later r" by simp
next
  assume "p r = Done (r, None)"
  then have "run_parsers (p # later) r = run_parsers later r" by simp
  then show "ParseLinks U (p # later) ks base r = ParseLinks U later ks base r"
    by (simp only: ParseLinks_def)
next
  assume "header_get r ''Link'' = ''''"
  then show "LinkHeaderParser_ParseLinks link_Parse r = Done (r, None)"
    by (simp add: LinkHeaderParser_ParseLinks_def)
next
  assume "DecodeH (Body r) = Inl e
        \<or> (\<exists>hal. DecodeH (Body r) = Inr hal \<and> (\<forall>(rel, l) \<in> set (hal_Links hal). rel = ''curies''))"
  then show "HALParser_ParseLinks DecodeH r = Done (r, None)"
    by (auto simp: HALParser_ParseLinks_def hal_loop_curies)
next
  assume "DecodeS (Body r) = Inl e
        \<or> (\<exists>siren. DecodeS (Body r) = Inr siren
              \<and> (\<forall>l \<in> set (siren_Links siren). siren_Href l = '''' \<or> siren_Rel l = []))"
  then show "SirenParser_ParseLinks DecodeS r = Done (r, None)"
    by (auto simp: SirenParser_ParseLinks_def siren_loop_absent)
next
  assume "self_links sprint ''self'' (Body r) = []"
  then show "TerrificallySimpleJSONParser_ParseLinks sprint r = Done (r, None)"
    by (simp add: TerrificallySimpleJSONParser_ParseLinks_def walk_record)
qed

text \<open>
  Runs of C7. On the response with the header \<open>garbage\<close> the self-link walk finds
  nothing, the header parser rejects the header, and \<open>ParseLinks\<close> returns that error
  although the HAL parser, next in the list, would panic on this response. On a body
  without links each of the four parsers leaves the response as it was, and so does
  \<open>ParseLinks\<close> with the four of them. On the body \<open>{"id": 9, "self": "/widgets/9"}\<close>
  the HAL parser finds nothing, the walk, added after it, records the self link, and
  \<open>ParseLinks\<close> returns the response with that link resolved.
\<close>

theorem ParseLinks_order_and_errors_witness:
  "ParseLinks simple_url
     ([TerrificallySimpleJSONParser_ParseLinks sprint_string]
        @ LinkHeaderParser_ParseLinks reject_header # [HALParser_ParseLinks decode_hal])
     [] widgets_base (response ''garbage'' None hal_body)
     = Done (response ''garbage'' None hal_body, Some ''link: malformed header'')
   \<and> HALParser_ParseLinks decode_hal (response ''garbage'' None hal_body)
       = Panic ''assignment to entry in nil map''
   \<and> run_parsers (AddLinkParser [TerrificallySimpleJSONParser_ParseLinks sprint_string]
                    (LinkHeaderParser_ParseLinks reject_header))
        (response ''garbage'' None hal_body)
       = Done (response ''garbage'' None hal_body, Some ''link: malformed header'')
   \<and> LinkHeaderParser_ParseLinks reject_header (response '''' None plain_body)
       = Done (response '''' None plain_body, None)
   \<and> HALParser_ParseLinks decode_hal (response '''' None plain_body)
       = Done (response '''' None plain_body, None)
   \<and> SirenParser_ParseLinks decode_siren (response '''' None plain_body)
       = Done (response '''' None plain_body, None)
   \<and> TerrificallySimpleJSONParser_ParseLinks sprint_string (response '''' None plain_body)
       = Done (response '''' None plain_body, None)
   \<and> run_parsers [HALParser_ParseLinks decode_hal, SirenParser_ParseLinks decode_siren]
        (response '''' None plain_body)
       = run_parsers [SirenParser_ParseLinks decode_siren] (response '''' None plain_body)
   \<and> ParseLinks simple_url
        [LinkHeaderParser_ParseLinks reject_header, HALParser_ParseLinks decode_hal,
         SirenParser_ParseLinks decode_siren, TerrificallySimpleJSONParser_ParseLinks sprint_string]
        [] widgets_base (response '''' None plain_body)
       = Done (response '''' None plain_body, None)
   \<and> ParseLinks simple_url
        (AddLinkParser [HALParser_ParseLinks decode_hal]
           (TerrificallySimpleJSONParser_ParseLinks sprint_string))
        [''self''] widgets_base (response '''' None widget_body)
       = Done (response ''''
                 (Some [''self'' \<mapsto> [\<lparr>Rel = ''self'', URI = ''https://api.example.com/widgets/9''\<rparr>]])
                 widget_body, None)"
proof -
  let ?g = "response ''garbage'' None hal_body"
  let ?p = "response '''' None plain_body"
  let ?w = "response '''' None widget_body"
  let ?four = "[LinkHeaderParser_ParseLinks reject_header, HALParser_ParseLinks decode_hal,
         SirenParser_ParseLinks decode_siren, TerrificallySimpleJSONParser_ParseLinks sprint_string]"
  have g1: "run_parsers [TerrificallySimpleJSONParser_ParseLinks sprint_string] ?g = Done (?g, None)"
    by (simp add: TerrificallySimpleJSONParser_ParseLinks_def response_def hal_body_def)
  have g2: "LinkHeaderParser_ParseLinks reject_header ?g = Done (?g, Some ''link: malformed header'')"
    by (simp add: LinkHeaderParser_ParseLinks_def reject_header_def response_def header_get_def)
  have g3: "HALParser_ParseLinks decode_hal ?g = Panic ''assignment to entry in nil map''"
    by (simp add: HALParser_ParseLinks_def decode_hal_def response_def hal_body_def store_link_def)
  have p1: "header_get ?p ''Link'' = ''''"
    by (simp add: header_get_def response_def)
  have p2: "decode_hal (Body ?p) = Inr \<lparr>hal_Links = []\<rparr>"
    by (simp add: decode_hal_def response_def plain_body_def)
  have p3: "decode_siren (Body ?p) = Inr \<lparr>siren_Links = []\<rparr>"
    by (simp add: decode_siren_def response_def plain_body_def)
  have p4: "self_links sprint_string ''self'' (Body ?p) = []"
    by (simp add: response_def plain_body_def)
  have p5: "Links ?p = None"
    by (simp add: response_def)
  note A = ParseLinks_order_and_errors
    [where ps = "[TerrificallySimpleJSONParser_ParseLinks sprint_string]" and resp = ?g and r = ?g
       and p = "LinkHeaderParser_ParseLinks reject_header" and r' = ?g
       and err = "''link: malformed header''" and U = simple_url
       and later = "[HALParser_ParseLinks decode_hal]" and ks = "[]" and base = widgets_base
       and link_Parse = reject_header and DecodeH = decode_hal and DecodeS = decode_siren
       and sprint = sprint_string and e = "[]" and qs = "[]"]
  note B = ParseLinks_order_and_errors
    [where r = ?p and link_Parse = reject_header and DecodeH = decode_hal
       and DecodeS = decode_siren and sprint = sprint_string
       and p = "HALParser_ParseLinks decode_hal"
       and later = "[SirenParser_ParseLinks decode_siren]"
       and ps = "[]" and resp = ?p and r' = ?p and err = "[]" and U = simple_url
       and ks = "[]" and base = widgets_base and e = "[]" and qs = "[]"]
  note C = ParseLinks_order_and_errors
    [where r = ?p and link_Parse = reject_header and DecodeH = decode_hal
       and DecodeS = decode_siren and sprint = sprint_string
       and p = "HALParser_ParseLinks decode_hal"
       and later = "[]"
       and ps = ?four and resp = ?p and r' = ?p and err = "[]" and U = simple_url
       and ks = "[]" and base = widgets_base and e = "[]" and qs = "[]"]
  note D = ParseLinks_order_and_errors
    [where r = ?w and link_Parse = reject_header and DecodeH = decode_hal
       and DecodeS = decode_siren and sprint = sprint_string
       and p = "TerrificallySimpleJSONParser_ParseLinks sprint_string"
       and later = "[]"
       and ps = "[HALParser_ParseLinks decode_hal]" and resp = ?w and r' = ?w and err = "[]"
       and U = simple_url and ks = "[''self'']" and base = widgets_base and e = "[]" and qs = "[]"]
  from A g1 g2 have a: "ParseLinks simple_url
     ([TerrificallySimpleJSONParser_ParseLinks sprint_string]
        @ LinkHeaderParser_ParseLinks reject_header # [HALParser_ParseLinks decode_hal])
     [] widgets_base ?g = Done (?g, Some ''link: malformed header'')"
    and a': "run_parsers (AddLinkParser [TerrificallySimpleJSONParser_ParseLinks sprint_string]
                    (LinkHeaderParser_ParseLinks reject_header)) ?g
       = Done (?g, Some ''link: malformed header'')"
    by simp_all
  from B p1 p2 p3 p4 have b:
    "LinkHeaderParser_ParseLinks reject_header ?p = Done (?p, None)"
    "HALParser_ParseLinks decode_hal ?p = Done (?p, None)"
    "SirenParser_ParseLinks decode_siren ?p = Done (?p, None)"
    "TerrificallySimpleJSONParser_ParseLinks sprint_string ?p = Done (?p, None)"
    by simp_all
  from B b(2) have c: "run_parsers [HALParser_ParseLinks decode_hal, SirenParser_ParseLinks decode_siren] ?p
       = run_parsers [SirenParser_ParseLinks decode_siren] ?p"
    by blast
  have d0: "run_parsers ?four ?p = Done (?p, None)"
    using b by simp
  from C d0 p5 have d: "ParseLinks simple_url ?four [] widgets_base ?p = Done (?p, None)"
    by blast
  have w1: "decode_hal (Body ?w) = Inr \<lparr>hal_Links = []\<rparr>"
    by (simp add: decode_hal_def response_def widget_body_def)
  from D w1 have w2: "HALParser_ParseLinks decode_hal ?w = Done (?w, None)"
    by simp
  then have w3: "run_parsers [HALParser_ParseLinks decode_hal] ?w = Done (?w, None)"
    by simp
  have w4: "ParseLinks simple_url [TerrificallySimpleJSONParser_ParseLinks sprint_string]
              [''self''] widgets_base ?w
       = Done (response ''''
                 (Some [''self'' \<mapsto> [\<lparr>Rel = ''self'', URI = ''https://api.example.com/widgets/9''\<rparr>]])
                 widget_body, None)"
    by (simp add: ParseLinks_def TerrificallySimpleJSONParser_ParseLinks_def response_def
        widget_body_def links_defs url_defs widgets_base_def)
  from D w3 have "ParseLinks simple_url
        (AddLinkParser [HALParser_ParseLinks decode_hal]
           (TerrificallySimpleJSONParser_ParseLinks sprint_string))
        [''self''] widgets_base ?w
      = ParseLinks simple_url [TerrificallySimpleJSONParser_ParseLinks sprint_string]
              [''self''] widgets_base ?w"
    by blast
  with w4 have w: "ParseLinks simple_url
        (AddLinkParser [HALParser_ParseLinks decode_hal]
           (TerrificallySimpleJSONParser_ParseLinks sprint_string))
        [''self''] widgets_base ?w
       = Done (response ''''
                 (Some [''self'' \<mapsto> [\<lparr>Rel = ''self'', URI = ''https://api.example.com/widgets/9''\<rparr>]])
                 widget_body, None)"
    by simp
  from a a' g3 b c d w show ?thesis by (intro conjI)
qed

subsection \<open>HAL and Siren on a nil links map\<close>

lemma hal_loop_nil:
  "Links resp = None \<Longrightarrow> \<exists>(rel, l) \<in> set xs. rel \<noteq> ''curies''
     \<Longrightarrow> hal_links_loop resp xs = Panic ''assignment to entry in nil map''"
  by (induction resp xs rule: hal_links_loop.induct) (auto simp: store_link_def)

lemma siren_rel_loop_nil:
  "Links resp = None \<Longrightarrow> rels \<noteq> [] \<Longrightarrow> siren_rel_loop resp href rels = Panic ''assignment to entry in nil map''"
  by (cases rels) (auto simp: store_link_def)

lemma siren_loop_nil:
  "Links resp = None \<Longrightarrow> \<exists>l \<in> set xs. siren_Href l \<noteq> '''' \<and> siren_Rel l \<noteq> []
     \<Longrightarrow> siren_links_loop resp xs = Panic ''assignment to entry in nil map''"
proof (induction resp xs rule: siren_links_loop.induct)
  case (1 resp)
  then show ?case by simp
next
  case (2 resp link rest)
  show ?case
  proof (cases "siren_Href link = ''''")
    case True
    with 2 show ?thesis by auto
  next
    case False
    show ?thesis
    proof (cases "siren_Rel link")
      case Nil
      with False 2 show ?thesis by auto
    next
      case (Cons a list)
      with False 2 show ?thesis by (simp add: store_link_def)
    qed
  qed
qed

text \<open>
  C10. On a response whose \<open>Links\<close> map is nil, \<open>HALParser.ParseLinks\<close> panics as
  soon as the decoded body has a relation other than \<open>curies\<close>, and
  \<open>SirenParser.ParseLinks\<close> as soon as it has an entry with an href and a relation:
  both assign to an entry of the nil map. \<open>LinkHeaderParser\<close> and the self-link walk
  create the map first (\<open>add_link\<close>).
\<close>

theorem nil_links_map_panics:
  "(Links resp = None \<and> Decode (Body resp) = Inr hal \<and> (rel, l) \<in> set (hal_Links hal)
      \<and> rel \<noteq> ''curies''
      \<longrightarrow> HALParser_ParseLinks Decode resp = Panic ''assignment to entry in nil map'')
   \<and> (Links resp = None \<and> DecodeS (Body resp) = Inr siren \<and> sl \<in> set (siren_Links siren)
      \<and> siren_Href sl \<noteq> '''' \<and> siren_Rel sl \<noteq> []
      \<longrightarrow> SirenParser_ParseLinks DecodeS resp = Panic ''assignment to entry in nil map'')"
proof (intro conjI impI)
  assume a: "Links resp = None \<and> Decode (Body resp) = Inr hal \<and> (rel, l) \<in> set (hal_Links hal)
      \<and> rel \<noteq> ''curies''"
  then have "\<exists>(rel, l) \<in> set (hal_Links hal). rel \<noteq> ''curies''" by blast
  with a show "HALParser_ParseLinks Decode resp = Panic ''assignment to entry in nil map''"
    by (simp add: HALParser_ParseLinks_def hal_loop_nil)
next
  assume a: "Links resp = None \<and> DecodeS (Body resp) = Inr siren \<and> sl \<in> set (siren_Links siren)
      \<and> siren_Href sl \<noteq> '''' \<and> siren_Rel sl \<noteq> []"
  then have "\<exists>l \<in> set (siren_Links siren). siren_Href l \<noteq> '''' \<and> siren_Rel l \<noteq> []" by blast
  with a show "SirenParser_ParseLinks DecodeS resp = Panic ''assignment to entry in nil map''"
    by (simp add: SirenParser_ParseLinks_def siren_loop_nil)
qed

text \<open>The two panics at \<open>hal_body\<close> and \<open>siren_body\<close>.\<close>

theorem nil_links_map_panics_witness:
  "HALParser_ParseLinks decode_hal (response '''' None hal_body)
     = Panic ''assignment to entry in nil map''
   \<and> SirenParser_ParseLinks decode_siren (response '''' None siren_body)
     = Panic ''assignment to entry in nil map''"
proof -
  have h: "Links (response '''' None hal_body) = None
      \<and> decode_hal (Body (response '''' None hal_body))
          = Inr \<lparr>hal_Links = [(''curies'', \<lparr>Href = ''/docs''\<rparr>), (''next'', \<lparr>Href = ''/page/2''\<rparr>)]\<rparr>
      \<and> (''next'', \<lparr>Href = ''/page/2''\<rparr>)
          \<in> set (hal_Links \<lparr>hal_Links = [(''curies'', \<lparr>Href = ''/docs''\<rparr>), (''next'', \<lparr>Href = ''/page/2''\<rparr>)]\<rparr>)
      \<and> ''next'' \<noteq> ''curies''"
    by (simp add: response_def hal_body_def decode_hal_def)
  have s: "Links (response '''' None siren_body) = None
      \<and> decode_siren (Body (response '''' None siren_body))
          = Inr \<lparr>siren_Links = [\<lparr>siren_Rel = [''next''], siren_Href = ''/page/2''\<rparr>]\<rparr>
      \<and> \<lparr>siren_Rel = [''next''], siren_Href = ''/page/2''\<rparr>
          \<in> set (siren_Links \<lparr>siren_Links = [\<lparr>siren_Rel = [''next''], siren_Href = ''/page/2''\<rparr>]\<rparr>)
      \<and> siren_Href \<lparr>siren_Rel = [''next''], siren_Href = ''/page/2''\<rparr> \<noteq> ''''
      \<and> siren_Rel \<lparr>siren_Rel = [''next''], siren_Href = ''/page/2''\<rparr> \<noteq> []"
    by (simp add: response_def siren_body_def decode_siren_def)
  from h s nil_links_map_panics show ?thesis by blast
qed

subsection \<open>Resolving the discovered links\<close>

lemma resolve_links_ok:
  "list_all (parses U) ls \<Longrightarrow> resolve_links U base ls = (map (absolute U base) ls, None)"
  by (induction ls) (auto simp: parses_def absolute_def split: sum.splits)

lemma resolve_all_ok:
  "distinct ks \<Longrightarrow> (\<And>k ls. k \<in> set ks \<Longrightarrow> m k = Some ls \<Longrightarrow> list_all (parses U) ls)
   \<Longrightarrow> resolve_all U base ks m
       = ((\<lambda>k. if k \<in> set ks then map_option (map (absolute U base)) (m k) else m k), None)"
proof (induction ks arbitrary: m)
  case Nil
  then show ?case by simp
next
  case (Cons k ks)
  show ?case
  proof (cases "m k")
    case None
    have "resolve_all U base ks m
       = ((\<lambda>k. if k \<in> set ks then map_option (map (absolute U base)) (m k) else m k), None)"
      using Cons.prems by (intro Cons.IH) auto
    with None show ?thesis by (auto simp: fun_eq_iff)
  next
    case (Some ls)
    then have ok: "list_all (parses U) ls" using Cons.prems by auto
    let ?m' = "m(k \<mapsto> map (absolute U base) ls)"
    have "resolve_all U base ks ?m'
       = ((\<lambda>k. if k \<in> set ks then map_option (map (absolute U base)) (?m' k) else ?m' k), None)"
    proof (intro Cons.IH)
      show "distinct ks" using Cons.prems(1) by simp
    next
      fix k' ls'
      assume a: "k' \<in> set ks" "?m' k' = Some ls'"
      then have "k' \<noteq> k" using Cons.prems(1) by auto
      with a have "m k' = Some ls'" by simp
      with a(1) show "list_all (parses U) ls'" using Cons.prems(2)[of k' ls'] by simp
    qed
    with Some ok Cons.prems(1) show ?thesis
      by (auto simp: resolve_links_ok fun_eq_iff)
  qed
qed

lemma resolve_links_first_rejected:
  "list_all (parses U) good \<Longrightarrow> url_Parse U (URI l) = Inl err
   \<Longrightarrow> resolve_links U base (good @ l # rest) = (map (absolute U base) good @ l # rest, Some err)"
  by (induction good) (auto simp: parses_def absolute_def split: sum.splits)

lemma resolve_all_append:
  "resolve_all U base ks1 m = (m1, None)
   \<Longrightarrow> resolve_all U base (ks1 @ ks2) m = resolve_all U base ks2 m1"
  by (induction ks1 arbitrary: m) (auto split: option.splits prod.splits)

lemma resolve_all_first_rejected:
  assumes d: "distinct (ks1 @ k # ks2)"
    and ok: "\<forall>k' \<in> set ks1. list_all (parses U) (links_get m k')"
    and mk: "m k = Some (good @ l # rest)"
    and good: "list_all (parses U) good"
    and bad: "url_Parse U (URI l) = Inl err"
  shows "resolve_all U base (ks1 @ k # ks2) m
       = ((\<lambda>k'. if k' \<in> set ks1 then map_option (map (absolute U base)) (m k')
                 else if k' = k then Some (map (absolute U base) good @ l # rest)
                 else m k'), Some err)"
proof -
  let ?m1 = "\<lambda>k'. if k' \<in> set ks1 then map_option (map (absolute U base)) (m k') else m k'"
  have 1: "resolve_all U base ks1 m = (?m1, None)"
  proof (intro resolve_all_ok)
    show "distinct ks1" using d by simp
  next
    fix k' ls
    assume a: "k' \<in> set ks1" "m k' = Some ls"
    with ok have "list_all (parses U) (links_get m k')" by blast
    with a(2) show "list_all (parses U) ls" by (simp add: links_get_def)
  qed
  have k: "k \<notin> set ks1" using d by simp
  then have 2: "?m1 k = Some (good @ l # rest)" using mk by simp
  have 3: "resolve_all U base (k # ks2) ?m1
       = (?m1(k \<mapsto> map (absolute U base) good @ l # rest), Some err)"
    using 2 resolve_links_first_rejected[OF good bad, of base rest] by simp
  have 4: "?m1(k \<mapsto> map (absolute U base) good @ l # rest)
       = (\<lambda>k'. if k' \<in> set ks1 then map_option (map (absolute U base)) (m k')
                 else if k' = k then Some (map (absolute U base) good @ l # rest)
                 else m k')"
    using k by (auto simp: fun_eq_iff)
  from resolve_all_append[OF 1, of "k # ks2"] 3 4 show ?thesis by simp
qed

lemma first_rejected_link:
  assumes "\<not> list_all (parses U) ls"
  shows "\<exists>good l rest err. ls = good @ l # rest \<and> list_all (parses U) good
           \<and> url_Parse U (URI l) = Inl err"
proof -
  from assms have "\<exists>x \<in> set ls. \<not> parses U x" by (simp add: list_all_iff)
  then obtain good l rest where s: "ls = good @ l # rest" "\<not> parses U l"
      "\<forall>y \<in> set good. \<not> \<not> parses U y"
    using split_list_first_prop[of ls "\<lambda>x. \<not> parses U x"] by blast
  from s(2) obtain err where "url_Parse U (URI l) = Inl err"
    by (auto simp: parses_def split: sum.splits)
  with s show ?thesis by (auto simp: list_all_iff)
qed

text \<open>
  C9, as amended. Let every parser have returned without error, leaving the links map
  \<open>m\<close>, and let \<open>ks\<close> be the order in which \<open>range\<close> yields its relation names. When
  \<open>url.Parse\<close> accepts the URI of every discovered link, \<open>ParseLinks\<close> returns no error
  and every link holds its URI resolved against \<open>base\<close>, whatever the order. When it
  rejects one, \<open>ParseLinks\<close> returns the error of the first rejected URI in the order of
  the loops: the links of the relations before it in \<open>ks\<close> and the links before it
  under its own relation are resolved; the rejected link, the links after it under that
  relation and the links of the later relations keep their URIs. A rejected URI always
  has such a first one.
\<close>

theorem ParseLinks_resolves_every_link:
  assumes "run_parsers linkParsers resp = Done (r, None)"
    and "Links r = Some m"
    and "distinct ks" and "set ks = dom m"
  shows "((\<forall>k \<in> dom m. list_all (parses U) (links_get m k))
          \<longrightarrow> ParseLinks U linkParsers ks base resp
               = Done (r\<lparr>Links := Some (\<lambda>k. map_option (map (absolute U base)) (m k))\<rparr>, None))
       \<and> (ks = visited @ k # pending \<and> (\<forall>k' \<in> set visited. list_all (parses U) (links_get m k'))
            \<and> m k = Some (good @ l # rest) \<and> list_all (parses U) good
            \<and> url_Parse U (URI l) = Inl err
          \<longrightarrow> ParseLinks U linkParsers ks base resp
               = Done (r\<lparr>Links := Some (\<lambda>k'.
                          if k' \<in> set visited then map_option (map (absolute U base)) (m k')
                          else if k' = k then Some (map (absolute U base) good @ l # rest)
                          else m k')\<rparr>, Some err))
       \<and> (\<not> (\<forall>k \<in> dom m. list_all (parses U) (links_get m k))
          \<longrightarrow> (\<exists>visited k pending good l rest err.
                 ks = visited @ k # pending \<and> (\<forall>k' \<in> set visited. list_all (parses U) (links_get m k'))
                 \<and> m k = Some (good @ l # rest) \<and> list_all (parses U) good
                 \<and> url_Parse U (URI l) = Inl err))"
proof (intro conjI impI)
  assume all: "\<forall>k \<in> dom m. list_all (parses U) (links_get m k)"
  have "resolve_all U base ks m
       = ((\<lambda>k. if k \<in> set ks then map_option (map (absolute U base)) (m k) else m k), None)"
  proof (intro resolve_all_ok)
    show "distinct ks" by (rule assms(3))
  next
    fix k ls
    assume a: "k \<in> set ks" "m k = Some ls"
    then have "k \<in> dom m" by auto
    with all have "list_all (parses U) (links_get m k)" by blast
    with a(2) show "list_all (parses U) ls" by (simp add: links_get_def)
  qed
  moreover have "(\<lambda>k. if k \<in> set ks then map_option (map (absolute U base)) (m k) else m k)
      = (\<lambda>k. map_option (map (absolute U base)) (m k))"
    using assms(4) by (auto simp: fun_eq_iff)
  ultimately show "ParseLinks U linkParsers ks base resp
      = Done (r\<lparr>Links := Some (\<lambda>k. map_option (map (absolute U base)) (m k))\<rparr>, None)"
    using assms(1,2) by (simp add: ParseLinks_def)
next
  assume a: "ks = visited @ k # pending \<and> (\<forall>k' \<in> set visited. list_all (parses U) (links_get m k'))
            \<and> m k = Some (good @ l # rest) \<and> list_all (parses U) good
            \<and> url_Parse U (URI l) = Inl err"
  then have d: "distinct (visited @ k # pending)" using assms(3) by simp
  from a have "resolve_all U base ks m
       = ((\<lambda>k'. if k' \<in> set visited then map_option (map (absolute U base)) (m k')
                 else if k' = k then Some (map (absolute U base) good @ l # rest)
                 else m k'), Some err)"
    using resolve_all_first_rejected[OF d, of U m good l rest err base] by simp
  then show "ParseLinks U linkParsers ks base resp
               = Done (r\<lparr>Links := Some (\<lambda>k'.
                          if k' \<in> set visited then map_option (map (absolute U base)) (m k')
                          else if k' = k then Some (map (absolute U base) good @ l # rest)
                          else m k')\<rparr>, Some err)"
    using assms(1,2) by (simp add: ParseLinks_def)
next
  assume "\<not> (\<forall>k \<in> dom m. list_all (parses U) (links_get m k))"
  then have "\<exists>k \<in> set ks. \<not> list_all (parses U) (links_get m k)"
    using assms(4) by simp
  then obtain visited k pending where s: "ks = visited @ k # pending"
      "\<not> list_all (parses U) (links_get m k)"
      "\<forall>k' \<in> set visited. \<not> \<not> list_all (parses U) (links_get m k')"
    using split_list_first_prop[of ks "\<lambda>k. \<not> list_all (parses U) (links_get m k)"] by blast
  from s(1) assms(4) obtain ls where ls: "m k = Some ls" by auto
  with s(2) have "\<not> list_all (parses U) ls" by (simp add: links_get_def)
  then obtain good l rest err where g: "ls = good @ l # rest" "list_all (parses U) good"
      "url_Parse U (URI l) = Inl err"
    using first_rejected_link by blast
  from s(1,3) ls g show "\<exists>visited k pending good l rest err.
                 ks = visited @ k # pending \<and> (\<forall>k' \<in> set visited. list_all (parses U) (links_get m k'))
                 \<and> m k = Some (good @ l # rest) \<and> list_all (parses U) good
                 \<and> url_Parse U (URI l) = Inl err"
    by blast
qed

text \<open>
  Runs of C9. The link \<open>/widgets/9\<close> found in a response fetched at
  \<open>https://api.example.com/widgets\<close> becomes \<open>https://api.example.com/widgets/9\<close>. In
  \<open>mixed_body\<close> the second link under \<open>b-item\<close> is rejected: when \<open>range\<close> yields
  \<open>a\<close>, \<open>b-item\<close>, \<open>c\<close>, the link under \<open>a\<close> and the first under \<open>b-item\<close> are resolved
  and the others are not; when it yields \<open>c\<close>, \<open>b-item\<close>, \<open>a\<close>, the link under \<open>c\<close> is
  resolved and the one under \<open>a\<close> is not. Both runs return the parse error.
\<close>

theorem ParseLinks_resolves_every_link_witness:
  "ParseLinks simple_url [TerrificallySimpleJSONParser_ParseLinks sprint_string] [''self'']
     widgets_base (response '''' None widget_body)
     = Done (response '''' (Some [''self'' \<mapsto> [\<lparr>Rel = ''self'', URI = ''https://api.example.com/widgets/9''\<rparr>]]) widget_body, None)
   \<and> ParseLinks simple_url [TerrificallySimpleJSONParser_ParseLinks sprint_string]
       [''a'', ''b-item'', ''c''] widgets_base (response '''' None mixed_body)
     = Done (response ''''
               (Some (mixed_links ''https://api.example.com/widgets/1''
                        ''https://api.example.com/widgets/2'' '':bad'' ''/widgets/3''
                        ''/widgets/4''))
               mixed_body, Some ''missing protocol scheme'')
   \<and> ParseLinks simple_url [TerrificallySimpleJSONParser_ParseLinks sprint_string]
       [''c'', ''b-item'', ''a''] widgets_base (response '''' None mixed_body)
     = Done (response ''''
               (Some (mixed_links ''/widgets/1''
                        ''https://api.example.com/widgets/2'' '':bad'' ''/widgets/3''
                        ''https://api.example.com/widgets/4''))
               mixed_body, Some ''missing protocol scheme'')"
proof -
  let ?T = "[TerrificallySimpleJSONParser_ParseLinks sprint_string]"
  let ?m = "[''self'' \<mapsto> [\<lparr>Rel = ''self'', URI = ''/widgets/9''\<rparr>]]"
  let ?r = "response '''' (Some ?m) widget_body"
  have 1: "run_parsers ?T (response '''' None widget_body) = Done (?r, None)"
    by (simp add: TerrificallySimpleJSONParser_ParseLinks_def response_def widget_body_def links_defs)
  have 2: "Links ?r = Some ?m" by (simp add: response_def)
  have 3: "distinct [''self'']" "set [''self''] = dom ?m" by simp_all
  have 4: "\<forall>k \<in> dom ?m. list_all (parses simple_url) (links_get ?m k)"
    by (simp add: links_get_def parses_def url_defs)
  have 5: "(\<lambda>k. map_option (map (absolute simple_url widgets_base)) (?m k))
      = [''self'' \<mapsto> [\<lparr>Rel = ''self'', URI = ''https://api.example.com/widgets/9''\<rparr>]]"
    by (auto simp: fun_eq_iff absolute_def url_defs widgets_base_def)
  have a: "ParseLinks simple_url ?T [''self''] widgets_base (response '''' None widget_body)
     = Done (response '''' (Some [''self'' \<mapsto> [\<lparr>Rel = ''self'', URI = ''https://api.example.com/widgets/9''\<rparr>]]) widget_body, None)"
    using ParseLinks_resolves_every_link[OF 1 2 3, where U = simple_url and base = widgets_base
        and visited = "[]" and k = "[]" and pending = "[]" and good = "[]" and l = "\<lparr>Rel = [], URI = []\<rparr>"
        and rest = "[]" and err = "[]"] 4
    unfolding 5 by (simp add: response_def)
  let ?n = "mixed_links ''/widgets/1'' ''/widgets/2'' '':bad'' ''/widgets/3'' ''/widgets/4''"
  let ?s = "response '''' (Some ?n) mixed_body"
  let ?b1 = "\<lparr>Rel = ''b-item'', URI = ''/widgets/2''\<rparr>"
  let ?b2 = "\<lparr>Rel = ''b-item'', URI = '':bad''\<rparr>"
  let ?b3 = "\<lparr>Rel = ''b-item'', URI = ''/widgets/3''\<rparr>"
  have 6: "run_parsers ?T (response '''' None mixed_body) = Done (?s, None)"
    by (simp add: TerrificallySimpleJSONParser_ParseLinks_def response_def mixed_body_def
        mixed_links_def links_defs fun_upd_twist)
  have 7: "Links ?s = Some ?n" by (simp add: response_def)
  have 8: "distinct [''a'', ''b-item'', ''c'']" "set [''a'', ''b-item'', ''c''] = dom ?n"
    "distinct [''c'', ''b-item'', ''a'']" "set [''c'', ''b-item'', ''a''] = dom ?n"
    by (auto simp: mixed_links_def)
  have 9: "\<forall>k' \<in> set [''a'']. list_all (parses simple_url) (links_get ?n k')"
    "\<forall>k' \<in> set [''c'']. list_all (parses simple_url) (links_get ?n k')"
    "?n ''b-item'' = Some ([?b1] @ ?b2 # [?b3])"
    "list_all (parses simple_url) [?b1]"
    "url_Parse simple_url (URI ?b2) = Inl ''missing protocol scheme''"
    by (simp_all add: mixed_links_def links_get_def parses_def url_defs)
  have 10: "(\<lambda>k'. if k' \<in> set [''a'']
                     then map_option (map (absolute simple_url widgets_base)) (?n k')
                   else if k' = ''b-item''
                     then Some (map (absolute simple_url widgets_base) [?b1] @ ?b2 # [?b3])
                   else ?n k')
      = mixed_links ''https://api.example.com/widgets/1''
          ''https://api.example.com/widgets/2'' '':bad'' ''/widgets/3'' ''/widgets/4''"
    by (auto simp: fun_eq_iff mixed_links_def absolute_def url_defs widgets_base_def)
  have 11: "(\<lambda>k'. if k' \<in> set [''c'']
                     then map_option (map (absolute simple_url widgets_base)) (?n k')
                   else if k' = ''b-item''
                     then Some (map (absolute simple_url widgets_base) [?b1] @ ?b2 # [?b3])
                   else ?n k')
      = mixed_links ''/widgets/1''
          ''https://api.example.com/widgets/2'' '':bad'' ''/widgets/3''
          ''https://api.example.com/widgets/4''"
    by (auto simp: fun_eq_iff mixed_links_def absolute_def url_defs widgets_base_def)
  have b: "ParseLinks simple_url ?T [''a'', ''b-item'', ''c''] widgets_base
             (response '''' None mixed_body)
     = Done (response ''''
               (Some (mixed_links ''https://api.example.com/widgets/1''
                        ''https://api.example.com/widgets/2'' '':bad'' ''/widgets/3''
                        ''/widgets/4''))
               mixed_body, Some ''missing protocol scheme'')"
    using ParseLinks_resolves_every_link[OF 6 7 8(1,2), where U = simple_url
        and base = widgets_base and visited = "[''a'']" and k = "''b-item''" and pending = "[''c'']"
        and good = "[?b1]" and l = ?b2 and rest = "[?b3]" and err = "''missing protocol scheme''"]
      9(1,3,4,5)
    unfolding 10 by (simp add: response_def)
  have c: "ParseLinks simple_url ?T [''c'', ''b-item'', ''a''] widgets_base
             (response '''' None mixed_body)
     = Done (response ''''
               (Some (mixed_links ''/widgets/1''
                        ''https://api.example.com/widgets/2'' '':bad'' ''/widgets/3''
                        ''https://api.example.com/widgets/4''))
               mixed_body, Some ''missing protocol scheme'')"
    using ParseLinks_resolves_every_link[OF 6 7 8(3,4), where U = simple_url
        and base = widgets_base and visited = "[''c'']" and k = "''b-item''" and pending = "[''a'']"
        and good = "[?b1]" and l = ?b2 and rest = "[?b3]" and err = "''missing protocol scheme''"]
      9(2,3,4,5)
    unfolding 11 by (simp add: response_def)
  from a b c show ?thesis by (intro conjI)
qed

text \<open>
  C9 as stated fails: the body \<open>{"self": ":bad"}\<close> gives a link whose URI
  \<open>url.Parse\<close> rejects; every parser has returned without error, \<open>ParseLinks\<close>
  returns the parse error, and the link keeps the URI \<open>:bad\<close>.
\<close>

theorem unparsable_link_stays:
  "ParseLinks simple_url [TerrificallySimpleJSONParser_ParseLinks sprint_string] [''self'']
     widgets_base (response '''' None bad_self_body)
     = Done (response '''' (Some [''self'' \<mapsto> [\<lparr>Rel = ''self'', URI = '':bad''\<rparr>]]) bad_self_body,
             Some ''missing protocol scheme'')"
  by (simp add: ParseLinks_def TerrificallySimpleJSONParser_ParseLinks_def response_def
      bad_self_body_def links_defs url_defs)

section \<open>Properties of the compiler\<close>

lemmas doc_defs = items_doc_def servers_doc_def gateway_entrypoint_def items_path_def list_items_def purge_items_def operation3_def
  limit_param_def create_item_def body_of_def empty_media_def slug_id_def no_ranges_def
  api_entrypoint_def api_spec_def limit_compiled_def compiled_op_def ExtIgnore_def ExtName_def ExtHidden_def

lemmas compile_defs = loader_Load_def loadOpenAPI3_def loader_Resolve_def openapiOperation_def
  compile_param_def extStr_def unmarshal_bool_def getRequestInfo_def request_mts_def item_info_def

subsection \<open>The request body's media type\<close>








subsection \<open>Path-level and operation-level parameters\<close>

lemma params_loop_lists:
  "params_loop ps (a, b, c) = Done (a', b', c') \<Longrightarrow>
     map Done a' = map Done a @ map compile_param (filter (\<lambda>p. param_In p = ''path'') (declared ps))
   \<and> map Done b' = map Done b @ map compile_param (filter (\<lambda>p. param_In p = ''query'') (declared ps))
   \<and> map Done c' = map Done c @ map compile_param (filter (\<lambda>p. param_In p = ''header'') (declared ps))"
proof (induction ps "(a, b, c)" arbitrary: a b c rule: params_loop.induct)
  case 1
  then show ?case by simp
next
  case (2 ps)
  then show ?case by simp
next
  case (3 p ps pathParams queryParams headerParams)
  from "3.prems" obtain param where cp: "compile_param p = Done param"
    by (auto split: exec.splits)
  show ?case
    using "3.hyps"[OF cp] "3.prems" cp
    by (auto split: if_splits)
qed

lemma declared_append: "declared (xs @ ys) = declared xs @ declared ys"
  by (induction xs rule: declared.induct) auto

text \<open>
  C5, as amended. The compiled path, query and header parameters are the compilations of
  the declared parameters of that location, the path-level ones first and the
  operation-level ones after them, each in declaration order. No parameter replaces
  another: an operation-level parameter with the name and location of a path-level one
  is compiled next to it.
\<close>

theorem parameters_are_concatenated:
  assumes "openapiOperation slug rs method uriTemplate path op = Done compiled"
  shows "map Done (o_PathParams compiled)
           = map compile_param (filter (\<lambda>p. param_In p = ''path'')
               (declared (path_Parameters path) @ declared (op_Parameters op)))
       \<and> map Done (o_QueryParams compiled)
           = map compile_param (filter (\<lambda>p. param_In p = ''query'')
               (declared (path_Parameters path) @ declared (op_Parameters op)))
       \<and> map Done (o_HeaderParams compiled)
           = map compile_param (filter (\<lambda>p. param_In p = ''header'')
               (declared (path_Parameters path) @ declared (op_Parameters op)))"
proof -
  from assms obtain a b c where
    pl: "params_loop (path_Parameters path @ op_Parameters op) ([], [], []) = Done (a, b, c)"
    and c: "o_PathParams compiled = a" "o_QueryParams compiled = b" "o_HeaderParams compiled = c"
    by (auto simp: openapiOperation_def split: exec.splits prod.splits)
  from params_loop_lists[OF pl] c show ?thesis
    by (simp add: declared_append)
qed

text \<open>
  \<open>list-items\<close> under \<open>/items\<close>: both declarations of the query parameter \<open>limit\<close>
  are compiled.
\<close>

theorem parameters_are_concatenated_witness:
  "openapiOperation slug_id no_ranges ''GET'' ''https://api.example.com/v2/items''
     (items_path [(''GET'', list_items)]) list_items
     = Done (compiled_op ''list-items'' ''GET'' ''https://api.example.com/v2/items''
               [limit_compiled ''integer'' ''page size'', limit_compiled ''string'' ''page token''])
   \<and> map Done [limit_compiled ''integer'' ''page size'', limit_compiled ''string'' ''page token'']
     = map compile_param [limit_param ''integer'' ''page size'', limit_param ''string'' ''page token'']"
proof -
  let ?c = "compiled_op ''list-items'' ''GET'' ''https://api.example.com/v2/items''
               [limit_compiled ''integer'' ''page size'', limit_compiled ''string'' ''page token'']"
  have 1: "openapiOperation slug_id no_ranges ''GET'' ''https://api.example.com/v2/items''
     (items_path [(''GET'', list_items)]) list_items = Done ?c"
    by (simp add: doc_defs compile_defs)
  have 2: "filter (\<lambda>p. param_In p = ''query'')
             (declared (path_Parameters (items_path [(''GET'', list_items)]))
                @ declared (op_Parameters list_items))
           = [limit_param ''integer'' ''page size'', limit_param ''string'' ''page token'']"
    by (simp add: items_path_def list_items_def operation3_def limit_param_def)
  have 3: "o_QueryParams ?c
     = [limit_compiled ''integer'' ''page size'', limit_compiled ''string'' ''page token'']"
    by (simp add: compiled_op_def)
  from parameters_are_concatenated[OF 1] 1 show ?thesis
    unfolding 2 3 by simp
qed

text \<open>
  C5 as stated fails: the path item \<open>/items\<close> declares the query parameter \<open>limit\<close> as
  an integer, \<open>list-items\<close> declares the query parameter \<open>limit\<close> as a string, and the
  compiled operation has two query parameters named \<open>limit\<close>, the path-level one first.
\<close>

theorem same_name_parameter_is_not_replaced:
  "openapiOperation slug_id no_ranges ''GET'' ''https://api.example.com/v2/items''
     (items_path [(''GET'', list_items)]) list_items
     = Done (compiled_op ''list-items'' ''GET'' ''https://api.example.com/v2/items''
               [limit_compiled ''integer'' ''page size'', limit_compiled ''string'' ''page token''])
   \<and> map Name [limit_compiled ''integer'' ''page size'', limit_compiled ''string'' ''page token'']
       = [''limit'', ''limit'']
   \<and> map param_In [limit_param ''integer'' ''page size'', limit_param ''string'' ''page token'']
       = [''query'', ''query'']"
  by (simp add: doc_defs compile_defs)

subsection \<open>The base path\<close>








subsection \<open>The ignore extension\<close>

text \<open>
  C3. The loop over the operations of a path item tests \<open>path.Extensions\<close>, not the
  operation's: \<open>purge-items\<close> carries \<open>x-cli-ignore: true\<close> and is compiled all the
  same, after \<open>list-items\<close>.
\<close>

theorem ignored_operation_is_compiled:
  "loader_Load simple_url slug_id (\<lambda>uri m. no_ranges) api_entrypoint api_spec
     (items_doc [(''GET'', list_items), (''DELETE'', purge_items)])
   = Done (Inr \<lparr>api_Short = ''Items'', api_Long = '''',
        Operations =
          [compiled_op ''list-items'' ''GET'' ''https://api.example.com/v2/items''
             [limit_compiled ''integer'' ''page size'', limit_compiled ''string'' ''page token''],
           compiled_op ''purge-items'' ''DELETE'' ''https://api.example.com/v2/items''
             [limit_compiled ''integer'' ''page size'']]\<rparr>)"
  by (simp add: doc_defs compile_defs url_defs)

section \<open>Properties of the command\<close>

lemma Serialize_string: "Serialize ffmt p (PString s) = [s]"
  by (simp add: Serialize_def)

lemma path_loop_first_failure:
  "i < length ps \<Longrightarrow> length ps \<le> length args
   \<Longrightarrow> \<forall>j < i. \<exists>v. Parse D (ps ! j) (args ! j) = Inr v
   \<Longrightarrow> Parse D (ps ! i) (args ! i) = Inl err
   \<Longrightarrow> path_loop D ps args uri
       = Done (Inl (''could not parse param '' @ Name (ps ! i) @ '' with input '' @ args ! i
                    @ '': '' @ err))"
proof (induction D ps args uri arbitrary: i rule: path_loop.induct)
  case (1 D args uri)
  then show ?case by simp
next
  case (2 D param ps uri)
  then show ?case by simp
next
  case (3 D param ps arg args uri)
  show ?case
  proof (cases i)
    case 0
    with "3.prems" show ?thesis
      by (simp add: Serialize_string)
  next
    case (Suc i')
    with "3.prems"(3) obtain v where v: "Parse D param arg = Inr v" by fastforce
    have a: "i' < length ps" "length ps \<le> length args"
      "\<forall>j < i'. \<exists>v. Parse D (ps ! j) (args ! j) = Inr v"
      "Parse D (ps ! i') (args ! i') = Inl err"
      using "3.prems" Suc by auto
    from "3.IH"[OF v a] v Suc show ?thesis by simp
  qed
qed

lemma argSpec_length: "argSpec o' args \<Longrightarrow> length (o_PathParams o') \<le> length args"
  by (simp add: argSpec_def split: if_splits)

text \<open>
  C8. When cobra has accepted the arguments and \<open>Param.Parse\<close> fails on the argument
  of some path parameter, \<open>Run\<close> ends in \<open>log.Fatalf\<close>: the message names the first
  path parameter whose argument does not parse, quotes that argument and gives the
  parse error; \<open>MakeRequestAndFormat\<close> is not called.
\<close>

theorem parse_failure_is_fatal:
  assumes "argSpec o' args"
    and "i < length (o_PathParams o')"
    and "Parse D (o_PathParams o' ! i) (args ! i) = Inl e"
  shows "\<exists>k err. k \<le> i \<and> Parse D (o_PathParams o' ! k) (args ! k) = Inl err
           \<and> Run D o' flags args
               = Done (Fatalf (''could not parse param '' @ Name (o_PathParams o' ! k)
                                @ '' with input '' @ args ! k @ '': '' @ err))
           \<and> (\<forall>req. Run D o' flags args \<noteq> Done (MakeRequestAndFormat req))"
proof -
  let ?fails = "\<lambda>k. \<exists>err. Parse D (o_PathParams o' ! k) (args ! k) = Inl err"
  define k where "k = (LEAST k. ?fails k)"
  have fi: "?fails i" using assms(3) by blast
  have fk: "?fails k" unfolding k_def using fi by (rule LeastI)
  have le: "k \<le> i" unfolding k_def using fi by (rule Least_le)
  have least: "\<not> ?fails j" if "j < k" for j
    using that unfolding k_def by (rule not_less_Least)
  from fk obtain err where err: "Parse D (o_PathParams o' ! k) (args ! k) = Inl err" by blast
  have before: "\<forall>j < k. \<exists>v. Parse D (o_PathParams o' ! j) (args ! j) = Inr v"
  proof (intro allI impI)
    fix j assume "j < k"
    from least[OF this] show "\<exists>v. Parse D (o_PathParams o' ! j) (args ! j) = Inr v"
      by (cases "Parse D (o_PathParams o' ! j) (args ! j)") auto
  qed
  have "k < length (o_PathParams o')" using le assms(2) by simp
  from path_loop_first_failure[OF this argSpec_length[OF assms(1)] before err]
  have "Run D o' flags args
          = Done (Fatalf (''could not parse param '' @ Name (o_PathParams o' ! k)
                           @ '' with input '' @ args ! k @ '': '' @ err))"
    by (simp add: Run_def)
  with le err show ?thesis by auto
qed

text \<open>
  \<open>get-post abc 7\<close>: \<open>abc\<close> is not an integer, and the run ends with the message for
  \<open>id\<close>.
\<close>

theorem parse_failure_is_fatal_witness:
  "Run cli_deps get_post Map.empty [''abc'', ''7'']
     = Done (Fatalf ''could not parse param id with input abc: invalid syntax'')"
proof -
  have 1: "argSpec get_post [''abc'', ''7'']"
    by (simp add: argSpec_def get_post_def)
  have 2: "0 < length (o_PathParams get_post)"
    by (simp add: get_post_def)
  have 4: "Parse cli_deps (o_PathParams get_post ! 0) ([''abc'', ''7''] ! 0) = Inl ''invalid syntax''"
    by (simp add: cli_deps_def get_post_def digits_Parse_def plain_param_def decimal_def)
  from parse_failure_is_fatal[OF 1 2 4, of Map.empty] obtain k err where
    k: "k \<le> 0" and e: "Parse cli_deps (o_PathParams get_post ! k) ([''abc'', ''7''] ! k) = Inl err"
    and r: "Run cli_deps get_post Map.empty [''abc'', ''7'']
               = Done (Fatalf (''could not parse param '' @ Name (o_PathParams get_post ! k)
                                @ '' with input '' @ [''abc'', ''7''] ! k @ '': '' @ err))"
    by blast
  from k have k0: "k = 0" by simp
  from e 4 have "err = ''invalid syntax''" unfolding k0 by simp
  with r show ?thesis unfolding k0
    by (simp add: get_post_def plain_param_def)
qed

text \<open>
  C1. An array parameter \<open>tags\<close> without a default, bound to the empty array
  \<open>[]string{}\<close>: the query loop tests \<open>IsZero\<close> only, which is false for an empty
  slice that is not nil, and adds the serialized value, the empty string; the header
  loop tests the length as well and adds nothing.
\<close>

theorem empty_array_query_is_sent:
  "query_loop D [''tags'' \<mapsto> PSlice ''string'' []] [plain_param ''array[string]'' ''tags''] Map.empty
     = Done [''tags'' \<mapsto> ['''']]
   \<and> header_loop D [''tags'' \<mapsto> PSlice ''string'' []] [plain_param ''array[string]'' ''tags'']
       Map.empty
     = Done Map.empty"
  by (simp add: plain_param_def flag_value_def Serialize_def values_Add_def)

end
